theory Spec2Isabelle
  imports Complex_Main "HOL-Library.AList" "HOL-Library.Sublist"
begin

section \<open>The TTL cache (src/cache/cacheManager.js)\<close>

text \<open>
  JavaScript strings are modelled as \<open>string\<close>: a list of code units below 256.
  \<open>Date.now()\<close> is an integer (milliseconds). A TTL and an expiry time are integers or
  \<open>NaN\<close>, written \<open>None\<close>: the constructor sets the default TTL to
  \<open>parseInt(process.env.CACHE_TTL, 10)\<close>, which is \<open>NaN\<close> when the variable is not set. The
  \<open>Map\<close> of the class is an association list in insertion order: \<open>Map.set\<close> replaces the
  value of a key in place or appends a new key, \<open>Map.delete\<close> removes the key, which is
  what \<open>AList.update\<close> and \<open>AList.delete\<close> do. The \<open>null\<close> that \<open>get\<close> returns is
  \<open>None\<close>.
\<close>

record 'v cacheEntry =
  data :: 'v
  expiryTime :: "int option"

record 'v cacheManager =
  cache :: "(string \<times> 'v cacheEntry) list"
  queryCache :: "(string \<times> 'v cacheEntry) list"
  defaultTTL :: "int option"

text \<open>The constructor; \<open>ttl\<close> is what \<open>parseInt(process.env.CACHE_TTL, 10)\<close> returns.\<close>

definition newCacheManager :: "int option \<Rightarrow> 'v cacheManager" where
  "newCacheManager ttl = \<lparr>cache = [], queryCache = [], defaultTTL = ttl\<rparr>"

text \<open>\<open>Date.now() + ttl\<close> and \<open>Date.now() > expiryTime\<close>: a sum with \<open>NaN\<close> is \<open>NaN\<close> and a
  comparison with \<open>NaN\<close> is false.\<close>

definition addNumber :: "int \<Rightarrow> int option \<Rightarrow> int option" where
  "addNumber now ttl = (case ttl of None \<Rightarrow> None | Some t \<Rightarrow> Some (now + t))"

definition expired :: "int \<Rightarrow> int option \<Rightarrow> bool" where
  "expired now expiry = (case expiry of None \<Rightarrow> False | Some x \<Rightarrow> now > x)"

text \<open>\<open>set(key, data, ttl = this.defaultTTL)\<close>, called when \<open>Date.now()\<close> is \<open>now\<close>;
  \<open>ttl = None\<close> is the omitted argument and \<open>Some t\<close> an integer one.\<close>

definition set_cm ::
  "'v cacheManager \<Rightarrow> string \<Rightarrow> 'v \<Rightarrow> int option \<Rightarrow> int \<Rightarrow> 'v \<times> 'v cacheManager" where
  "set_cm cm key d ttl now =
     (let expiry = addNumber now (case ttl of None \<Rightarrow> defaultTTL cm | Some t \<Rightarrow> Some t)
      in (d, cm\<lparr>cache := AList.update key \<lparr>data = d, expiryTime = expiry\<rparr> (cache cm)\<rparr>))"

text \<open>\<open>get(key)\<close>, called when \<open>Date.now()\<close> is \<open>now\<close>.\<close>

definition get_cm :: "'v cacheManager \<Rightarrow> string \<Rightarrow> int \<Rightarrow> 'v option \<times> 'v cacheManager" where
  "get_cm cm key now =
     (case map_of (cache cm) key of
        None \<Rightarrow> (None, cm)
      | Some cacheEntry \<Rightarrow>
          if expired now (expiryTime cacheEntry)
          then (None, cm\<lparr>cache := AList.delete key (cache cm)\<rparr>)
          else (Some (data cacheEntry), cm))"

text \<open>\<open>hashString\<close>: \<open>hash << 5\<close> and \<open>hash & hash\<close> convert to a signed 32-bit integer.\<close>

definition toInt32 :: "int \<Rightarrow> int" where
  "toInt32 n = (n + 2147483648) mod 4294967296 - 2147483648"

definition charCodeAt :: "char \<Rightarrow> int" where
  "charCodeAt c = of_char c"

definition hashStep :: "char \<Rightarrow> int \<Rightarrow> int" where
  "hashStep c hash = toInt32 ((toInt32 (hash * 32) - hash) + charCodeAt c)"

definition digitChar :: "int \<Rightarrow> char" where
  "digitChar d = char_of (48 + d)"

text \<open>\<open>hash.toString()\<close>: the decimal digits of an integer, with its sign.\<close>

function decimalDigits :: "int \<Rightarrow> string" where
  "decimalDigits n =
     (if n < 10 then [digitChar n] else decimalDigits (n div 10) @ [digitChar (n mod 10)])"
  by pat_completeness auto
termination
  by (relation "measure nat") auto

declare decimalDigits.simps [simp del]

definition intToString :: "int \<Rightarrow> string" where
  "intToString i = (if i < 0 then CHR ''-'' # decimalDigits (- i) else decimalDigits i)"

definition hashString :: "'v cacheManager \<Rightarrow> string \<Rightarrow> string" where
  "hashString cm str = intToString (fold hashStep str 0)"

definition cacheQuery ::
  "'v cacheManager \<Rightarrow> string \<Rightarrow> 'v \<Rightarrow> int option \<Rightarrow> int \<Rightarrow> 'v \<times> 'v cacheManager" where
  "cacheQuery cm queryString d ttl now =
     (let queryKey = hashString cm queryString in set_cm cm queryKey d ttl now)"

definition getCachedQuery :: "'v cacheManager \<Rightarrow> string \<Rightarrow> int \<Rightarrow> 'v option \<times> 'v cacheManager" where
  "getCachedQuery cm queryString now =
     (let queryKey = hashString cm queryString in get_cm cm queryKey now)"

text \<open>\<open>cleanupExpiredEntries\<close>: the loop visits the entries and deletes by key.\<close>

definition cleanupStep :: "int \<Rightarrow> string \<times> 'v cacheEntry \<Rightarrow>
    (string \<times> 'v cacheEntry) list \<Rightarrow> (string \<times> 'v cacheEntry) list" where
  "cleanupStep now = (\<lambda>(key, entry) c. if expired now (expiryTime entry) then AList.delete key c else c)"

definition cleanupExpiredEntries :: "'v cacheManager \<Rightarrow> int \<Rightarrow> 'v cacheManager" where
  "cleanupExpiredEntries cm now = cm\<lparr>cache := fold (cleanupStep now) (cache cm) (cache cm)\<rparr>"

definition clear :: "'v cacheManager \<Rightarrow> 'v cacheManager" where
  "clear cm = cm\<lparr>cache := []\<rparr>"

text \<open>A \<open>Map\<close> holds one entry per key.\<close>

definition wf_cache :: "'v cacheManager \<Rightarrow> bool" where
  "wf_cache cm = distinct (map fst (cache cm))"

section \<open>The result normalizer (\<open>SparqlClient.transformResults\<close>, src/utils/sparqlClient.js)\<close>

text \<open>
  A raw result set is the SPARQL JSON of the endpoint: an optional \<open>results\<close> container
  with an optional \<open>bindings\<close> list. A binding maps a variable name to the \<open>value\<close>
  string of its term; an unbound variable is absent from the binding.
\<close>

type_synonym binding = "string \<rightharpoonup> string"

record resultsContainer =
  bindings :: "binding list option"

record rawResults =
  results :: "resultsContainer option"

text \<open>
  A JavaScript Number: \<open>Num q\<close> stands for the double nearest to the rational \<open>q\<close>.
  The rounding of the mantissa is not modelled; underflow to zero and overflow to
  infinity are (\<open>roundNumber\<close>), so that truthiness is exact.
\<close>

datatype number = NaN | PosInfinity | NegInfinity | Num rat

definition roundNumber :: "rat \<Rightarrow> number" where
  "roundNumber q =
     (if \<bar>q\<bar> \<le> 1 / 2 ^ 1075 then Num 0
      else if \<bar>q\<bar> \<ge> 2 ^ 1024 - 2 ^ 970 then (if q < 0 then NegInfinity else PosInfinity)
      else Num q)"

definition truthyNumber :: "number \<Rightarrow> bool" where
  "truthyNumber n = (case n of NaN \<Rightarrow> False | Num q \<Rightarrow> q \<noteq> 0 | _ \<Rightarrow> True)"

definition isWhiteSpace :: "char \<Rightarrow> bool" where
  "isWhiteSpace c = ((of_char c :: int) \<in> {9, 10, 11, 12, 13, 32, 160})"

definition isDigit :: "char \<Rightarrow> bool" where
  "isDigit c = (48 \<le> (of_char c :: int) \<and> (of_char c :: int) \<le> 57)"

definition digitsValue :: "string \<Rightarrow> nat" where
  "digitsValue ds = foldl (\<lambda>a c. 10 * a + (of_char c - 48)) 0 ds"

definition stripSign :: "string \<Rightarrow> bool \<times> string" where
  "stripSign s =
     (case s of
        [] \<Rightarrow> (False, s)
      | c # r \<Rightarrow> if c = CHR ''-'' then (True, r) else if c = CHR ''+'' then (False, r) else (False, s))"

definition exponentPart :: "string \<Rightarrow> int" where
  "exponentPart s =
     (case s of
        [] \<Rightarrow> 0
      | c # r \<Rightarrow>
          if c = CHR ''e'' \<or> c = CHR ''E''
          then (let (neg, d) = stripSign r; ds = takeWhile isDigit d
                in if ds = [] then 0
                   else if neg then - int (digitsValue ds) else int (digitsValue ds))
          else 0)"

definition pow10 :: "int \<Rightarrow> rat" where
  "pow10 k = (if k \<ge> 0 then 10 ^ nat k else 1 / 10 ^ nat (- k))"

text \<open>\<open>parseFloat\<close>: leading white space, then the longest prefix that is a decimal
  literal (sign, \<open>Infinity\<close> or digits with an optional fraction and exponent).\<close>

definition parseFloat :: "string \<Rightarrow> number" where
  "parseFloat s =
     (let (neg, u) = stripSign (dropWhile isWhiteSpace s)
      in if prefix ''Infinity'' u then (if neg then NegInfinity else PosInfinity)
         else
           (let ip = takeWhile isDigit u;
                r1 = dropWhile isDigit u;
                (fp, r2) = (case r1 of
                              [] \<Rightarrow> ([], r1)
                            | c # r \<Rightarrow> if c = CHR ''.''
                                       then (takeWhile isDigit r, dropWhile isDigit r)
                                       else ([], r1))
            in if ip = [] \<and> fp = [] then NaN
               else
                 (let v = of_nat (digitsValue (ip @ fp)) * pow10 (exponentPart r2 - int (length fp))
                  in roundNumber (if neg then - v else v))))"

text \<open>\<open>coordValue.match(/Point\(([^ ]+) ([^)]+)\)/)\<close>: the leftmost position where
  \<open>Point(\<close>, a non-empty run without a space, a space, a non-empty run without \<open>)\<close> and
  \<open>)\<close> follow one another. Each class excludes the delimiter after it, so the greedy
  run is the only candidate at a position.\<close>

definition matchPointAt :: "string \<Rightarrow> (string \<times> string) option" where
  "matchPointAt s =
     (if prefix ''Point('' s
      then (let r = drop 6 s;
                g1 = takeWhile (\<lambda>c. c \<noteq> CHR '' '') r;
                r1 = dropWhile (\<lambda>c. c \<noteq> CHR '' '') r
            in if g1 = [] \<or> r1 = [] then None
               else (let r2 = tl r1;
                         g2 = takeWhile (\<lambda>c. c \<noteq> CHR '')'') r2;
                         r3 = dropWhile (\<lambda>c. c \<noteq> CHR '')'') r2
                     in if g2 = [] \<or> r3 = [] then None else Some (g1, g2)))
      else None)"

fun matchPoint :: "string \<Rightarrow> (string \<times> string) option" where
  "matchPoint [] = matchPointAt []"
| "matchPoint (c # cs) =
     (case matchPointAt (c # cs) of Some m \<Rightarrow> Some m | None \<Rightarrow> matchPoint cs)"

declare matchPoint.simps [simp del]

text \<open>\<open>toLowerCase\<close> on code units below 256: A-Z and the Latin-1 capitals.\<close>

definition toLowerChar :: "char \<Rightarrow> char" where
  "toLowerChar c =
     (let n = (of_char c :: int)
      in if (65 \<le> n \<and> n \<le> 90) \<or> (192 \<le> n \<and> n \<le> 222 \<and> n \<noteq> 215) then char_of (n + 32) else c)"

definition toLowerCase :: "string \<Rightarrow> string" where
  "toLowerCase s = map toLowerChar s"

fun includes' :: "string \<Rightarrow> string \<Rightarrow> bool" where
  "includes' [] searchString = (searchString = [])"
| "includes' (c # cs) searchString = (prefix searchString (c # cs) \<or> includes' cs searchString)"

text \<open>\<open>split(sep)\<close> on a one-character separator; the array is never empty, so
  \<open>pop()\<close> is its last element.\<close>

fun split :: "char \<Rightarrow> string \<Rightarrow> string list" where
  "split sep [] = [[]]"
| "split sep (c # cs) =
     (if c = sep then [] # split sep cs
      else (case split sep cs of [] \<Rightarrow> [[c]] | x # xs \<Rightarrow> (c # x) # xs))"

definition pop :: "string list \<Rightarrow> string" where
  "pop xs = last xs"

record coordinates =
  latitude :: number
  longitude :: number

record waterFeature =
  id' :: string
  name :: string
  type' :: string
  location :: "coordinates option"
  locatedIn :: "string option"
  width :: "number option"
  length' :: "number option"
  surfaceArea :: "number option"
  capacity :: "number option"
  inceptionDate :: "string option"
  wikidataUrl :: string
  description :: "string option"

datatype error = TypeError string | Error string

text \<open>The coordinate block: \<open>latitude\<close> and \<open>longitude\<close> stay \<open>null\<close> unless the
  pattern matches.\<close>

definition parseCoord :: "binding \<Rightarrow> number option \<times> number option" where
  "parseCoord b =
     (case b ''coord'' of
        None \<Rightarrow> (None, None)
      | Some coordValue \<Rightarrow>
          (case matchPoint coordValue of
             None \<Rightarrow> (None, None)
           | Some (m1, m2) \<Rightarrow> (Some (parseFloat m2), Some (parseFloat m1))))"

definition truthy :: "number option \<Rightarrow> bool" where
  "truthy v = (case v of None \<Rightarrow> False | Some n \<Rightarrow> truthyNumber n)"

text \<open>\<open>latitude && longitude ? { latitude, longitude } : null\<close>\<close>

definition mkLocation :: "number option \<Rightarrow> number option \<Rightarrow> coordinates option" where
  "mkLocation lat lon =
     (if truthy lat \<and> truthy lon
      then (case (lat, lon) of
              (Some la, Some lo) \<Rightarrow> Some \<lparr>latitude = la, longitude = lo\<rparr>
            | _ \<Rightarrow> None)
      else None)"

text \<open>The type block, with its default and its order of tests.\<close>

definition inferType :: "binding \<Rightarrow> string" where
  "inferType b =
     (case b ''typeLabel'' of
        None \<Rightarrow> ''LAKE''
      | Some v \<Rightarrow>
          (let typeLabel = toLowerCase v
           in if includes' typeLabel ''dam'' then ''DAM''
              else if includes' typeLabel ''reservoir'' then ''RESERVOIR''
              else if includes' typeLabel ''river'' then ''RIVER''
              else if includes' typeLabel ''lake'' then ''LAKE''
              else ''LAKE''))"

text \<open>The callback of \<open>bindings.map\<close>. \<open>binding.item.value\<close> is read without a guard:
  on a binding without \<open>item\<close> it throws a TypeError.\<close>

definition transformBinding :: "binding \<Rightarrow> error + waterFeature" where
  "transformBinding b =
     (let (lat, lon) = parseCoord b
      in case b ''item'' of
           None \<Rightarrow> Inl (TypeError ''Cannot read properties of undefined (reading 'value')'')
         | Some itemValue \<Rightarrow>
             (let ident = pop (split CHR ''/'' itemValue);
                  ty = inferType b
              in Inr \<lparr>id' = ident,
                      name = (case b ''itemLabel'' of Some v \<Rightarrow> v | None \<Rightarrow> ''Unknown''),
                      type' = ty,
                      location = mkLocation lat lon,
                      locatedIn = b ''locatedInLabel'',
                      width = map_option parseFloat (b ''width''),
                      length' = map_option parseFloat (b ''length''),
                      surfaceArea = map_option parseFloat (b ''surfaceArea''),
                      capacity = map_option parseFloat (b ''capacity''),
                      inceptionDate = b ''inception'',
                      wikidataUrl = ''https://www.wikidata.org/wiki/'' @ ident,
                      description = b ''description''\<rparr>))"

text \<open>\<open>Array.map\<close> with a callback that may throw: the first exception ends the call.\<close>

fun mapBindings :: "binding list \<Rightarrow> error + waterFeature list" where
  "mapBindings [] = Inr []"
| "mapBindings (b # bs) =
     (case transformBinding b of
        Inl e \<Rightarrow> Inl e
      | Inr f \<Rightarrow> (case mapBindings bs of Inl e \<Rightarrow> Inl e | Inr fs \<Rightarrow> Inr (f # fs)))"

text \<open>What the cache and \<open>query\<close> hand around: raw result sets, feature lists and
  single features. \<open>transformResults\<close> reads \<open>results.results\<close>, which an array or a
  feature does not have.\<close>

datatype jsdata = Results rawResults | FeatureList "waterFeature list" | Feature waterFeature

definition transformResults :: "jsdata \<Rightarrow> error + waterFeature list" where
  "transformResults r =
     (case r of
        Results raw \<Rightarrow>
          (case results raw of
             None \<Rightarrow> Inr []
           | Some c \<Rightarrow> (case bindings c of None \<Rightarrow> Inr [] | Some bs \<Rightarrow> mapBindings bs))
      | FeatureList _ \<Rightarrow> Inr []
      | Feature _ \<Rightarrow> Inr [])"

text \<open>The words of the specification for the category test: the label contains the
  keyword, letter case ignored.\<close>

definition containsIgnoringCase :: "string \<Rightarrow> string \<Rightarrow> bool" where
  "containsIgnoringCase label kw =
     (\<exists>ps w ss. label = ps @ w @ ss \<and> toLowerCase w = toLowerCase kw)"

section \<open>The query builder (\<open>SparqlClient.buildWaterFeaturesQuery\<close>)\<close>

text \<open>
  The destructured argument: \<open>None\<close> is a missing (or, for the four filters, \<open>null\<close>)
  property. The numeric arguments are Numbers with an integral value below \<open>10^21\<close> in
  magnitude, which a template renders in decimal; a bound with a fraction or beyond that
  range is outside the model. The text is that of the current \<open>sparqlClient.js\<close>; the earlier
  revision kept beside it has the same code with property \<open>P1157\<close> in the capacity
  filter and 100 as the default limit.
\<close>

record queryParams =
  typeParam :: "string option"
  region :: "string option"
  minCapacity :: "int option"
  minSurfaceArea :: "int option"
  sortBy :: "string option"
  sortOrder :: "string option"
  limit :: "int option"
  offset :: "int option"

definition noParams :: queryParams where
  "noParams = \<lparr>typeParam = None, region = None, minCapacity = None, minSurfaceArea = None,
     sortBy = None, sortOrder = None, limit = None, offset = None\<rparr>"

definition waterFeatureTypes :: "string list" where
  "waterFeatureTypes = [''LAKE'', ''DAM'', ''RESERVOIR'', ''RIVER'']"

definition queryLimit :: int where
  "queryLimit = 500"

definition typeMapping :: "(string \<times> string) list" where
  "typeMapping = [(''LAKE'', ''Q23397''), (''DAM'', ''Q12323''),
     (''RESERVOIR'', ''Q131681''), (''RIVER'', ''Q4022'')]"

definition sortMapping :: "(string \<times> string) list" where
  "sortMapping = [(''name'', ''?name''), (''surfaceArea'', ''?surfaceArea''),
     (''capacity'', ''?capacity''), (''width'', ''?width''), (''length'', ''?length'')]"

text \<open>The two tables are object literals, so a read \<open>obj[key]\<close> also finds the members
  inherited from \<open>Object.prototype\<close>: eleven native functions and \<open>__proto__\<close>, all truthy.
  The table gives what a template renders for each of them.\<close>

definition nativeFunction :: "string \<Rightarrow> string" where
  \<open>nativeFunction f = ''function '' @ f @ ''() { [native code] }''\<close>

definition objectPrototype :: "(string \<times> string) list" where
  "objectPrototype =
     [(''constructor'', nativeFunction ''Object''),
      (''__defineGetter__'', nativeFunction ''__defineGetter__''),
      (''__defineSetter__'', nativeFunction ''__defineSetter__''),
      (''hasOwnProperty'', nativeFunction ''hasOwnProperty''),
      (''__lookupGetter__'', nativeFunction ''__lookupGetter__''),
      (''__lookupSetter__'', nativeFunction ''__lookupSetter__''),
      (''isPrototypeOf'', nativeFunction ''isPrototypeOf''),
      (''propertyIsEnumerable'', nativeFunction ''propertyIsEnumerable''),
      (''toString'', nativeFunction ''toString''),
      (''valueOf'', nativeFunction ''valueOf''),
      (''__proto__'', ''[object Object]''),
      (''toLocaleString'', nativeFunction ''toLocaleString'')]"

definition getProperty :: "(string \<times> string) list \<Rightarrow> string \<Rightarrow> string option" where
  "getProperty obj key =
     (case map_of obj key of Some v \<Rightarrow> Some v | None \<Rightarrow> map_of objectPrototype key)"

text \<open>A property read inside a template: a missing key renders as \<open>undefined\<close>.\<close>

definition lookupText :: "(string \<times> string) list \<Rightarrow> string \<Rightarrow> string" where
  "lookupText obj key = (case getProperty obj key of None \<Rightarrow> ''undefined'' | Some v \<Rightarrow> v)"

fun join :: "string list \<Rightarrow> string \<Rightarrow> string" where
  "join [] sep = []"
| "join [x] sep = x"
| "join (x # y # ys) sep = x @ sep @ join (y # ys) sep"

text \<open>The template of \<open>buildWaterFeaturesQuery\<close>, cut at its interpolations: up to \<open>${typeFilter}\<close>,\<close>

definition querySelect :: string where
  \<open>querySelect =
     ''\<newline>'' @
     ''            SELECT DISTINCT ?itemLabel (SAMPLE(?item) AS ?item) (SAMPLE(?typeId) AS ?typeId) \<newline>'' @
     ''                            (SAMPLE(?typeLabel) AS ?typeLabel) (SAMPLE(?coord) AS ?coord) \<newline>'' @
     ''                            (SAMPLE(?locatedInLabel) AS ?locatedInLabel) (SAMPLE(?width) AS ?width) \<newline>'' @
     ''                            (SAMPLE(?length) AS ?length) (SAMPLE(?surfaceArea) AS ?surfaceArea) \<newline>'' @
     ''                            (SAMPLE(?capacity) AS ?capacity) (SAMPLE(?inception) AS ?inception) \<newline>'' @
     ''                            (SAMPLE(?description) AS ?description)\<newline>'' @
     ''            WHERE {\<newline>'' @
     ''                # Bulgaria constraint\<newline>'' @
     ''                ?item wdt:P17 wd:Q219. # located in Bulgaria\<newline>'' @
     ''                \<newline>'' @
     ''                # Type constraint\<newline>'' @
     ''                ''\<close>

text \<open>from there to \<open>${regionFilter}\<close>,\<close>

definition queryPatterns :: string where
  \<open>queryPatterns =
     ''\<newline>'' @
     ''                \<newline>'' @
     ''                # Get the specific type\<newline>'' @
     ''                ?item wdt:P31 ?typeId.\<newline>'' @
     ''                ?typeId rdfs:label ?typeLabel.\<newline>'' @
     ''                FILTER(LANG(?typeLabel) = "en")\<newline>'' @
     ''                \<newline>'' @
     ''                # Name\<newline>'' @
     ''                ?item rdfs:label ?itemLabel.\<newline>'' @
     ''                FILTER(LANG(?itemLabel) = "en")\<newline>'' @
     ''                \<newline>'' @
     ''                # Coordinates\<newline>'' @
     ''                OPTIONAL { ?item wdt:P625 ?coord. }\<newline>'' @
     ''                \<newline>'' @
     ''                # Location\<newline>'' @
     ''                OPTIONAL { \<newline>'' @
     ''                    ?item wdt:P131 ?locatedIn. \<newline>'' @
     ''                    ?locatedIn rdfs:label ?locatedInLabel.\<newline>'' @
     ''                    FILTER(LANG(?locatedInLabel) = "en")\<newline>'' @
     ''                }\<newline>'' @
     ''\<newline>'' @
     ''                # Vertical depth\<newline>'' @
     ''                OPTIONAL { ?item wdt:P4511 ?depth. }\<newline>'' @
     ''                \<newline>'' @
     ''                # Length\<newline>'' @
     ''                OPTIONAL { ?item wdt:P2043 ?length. }\<newline>'' @
     ''\<newline>'' @
     ''                # Width\<newline>'' @
     ''                OPTIONAL { ?item wdt:P2049 ?width. }\<newline>'' @
     ''                \<newline>'' @
     ''                # Surface area\<newline>'' @
     ''                OPTIONAL { ?item wdt:P2046 ?surfaceArea. }\<newline>'' @
     ''                \<newline>'' @
     ''                # Capacity\<newline>'' @
     ''                OPTIONAL { ?item wdt:P2234 ?capacity. }\<newline>'' @
     ''                \<newline>'' @
     ''                # Inception date\<newline>'' @
     ''                OPTIONAL { ?item wdt:P571 ?inception. }\<newline>'' @
     ''                \<newline>'' @
     ''                # Description\<newline>'' @
     ''                OPTIONAL {\<newline>'' @
     ''                    ?item schema:description ?description.\<newline>'' @
     ''                    FILTER(LANG(?description) = "en")\<newline>'' @
     ''                }\<newline>'' @
     ''                \<newline>'' @
     ''                ''\<close>

text \<open>between the three filters,\<close>

definition queryGap :: string where
  \<open>queryGap =
     ''\<newline>'' @
     ''                ''\<close>

text \<open>from \<open>${surfaceAreaFilter}\<close> to the sort direction,\<close>

definition queryGroupOrder :: string where
  \<open>queryGroupOrder =
     ''\<newline>'' @
     ''            }\<newline>'' @
     ''            GROUP BY ?itemLabel\<newline>'' @
     ''            ORDER BY ''\<close>

text \<open>and the page window.\<close>

definition queryLimitClause :: string where
  \<open>queryLimitClause =
     '')\<newline>'' @
     ''            LIMIT ''\<close>

definition queryOffsetClause :: string where
  \<open>queryOffsetClause =
     ''\<newline>'' @
     ''            OFFSET ''\<close>

definition queryEnd :: string where
  \<open>queryEnd =
     ''\<newline>'' @
     ''        ''\<close>

text \<open>The two templates of the type filter,\<close>

definition typeFilterOne1 :: string where
  \<open>typeFilterOne1 =
     ''?item wdt:P31/wdt:P279* wd:''\<close>

definition typeFilterOne2 :: string where
  \<open>typeFilterOne2 =
     ''.''\<close>

definition typeFilterAll1 :: string where
  \<open>typeFilterAll1 =
     ''\<newline>'' @
     ''                VALUES ?typeId {''\<close>

definition typeFilterAll2 :: string where
  \<open>typeFilterAll2 =
     ''}\<newline>'' @
     ''                ?item wdt:P31/wdt:P279* ?typeId.\<newline>'' @
     ''            ''\<close>

text \<open>of the region filter,\<close>

definition regionFilter1 :: string where
  \<open>regionFilter1 =
     ''\<newline>'' @
     ''                ?item wdt:P131/wdt:P131* ?region.\<newline>'' @
     ''                ?region rdfs:label ?regionLabel.\<newline>'' @
     ''                FILTER(CONTAINS(LCASE(?regionLabel), LCASE("''\<close>

definition regionFilter2 :: string where
  \<open>regionFilter2 =
     ''"))).\<newline>'' @
     ''            ''\<close>

text \<open>of the capacity filter\<close>

definition capacityFilter1 :: string where
  \<open>capacityFilter1 =
     ''\<newline>'' @
     ''                ?item wdt:P2234 ?capacity.\<newline>'' @
     ''                FILTER(?capacity >= ''\<close>

definition capacityFilter2 :: string where
  \<open>capacityFilter2 =
     '').\<newline>'' @
     ''            ''\<close>

text \<open>and of the surface area filter.\<close>

definition surfaceAreaFilter1 :: string where
  \<open>surfaceAreaFilter1 =
     ''\<newline>'' @
     ''                ?item wdt:P2046 ?surfaceArea.\<newline>'' @
     ''                FILTER(?surfaceArea >= ''\<close>

definition surfaceAreaFilter2 :: string where
  \<open>surfaceAreaFilter2 =
     '').\<newline>'' @
     ''            ''\<close>

text \<open>The template of \<open>buildWaterFeatureByIdQuery\<close>, before and after \<open>${id}\<close>.\<close>

definition byIdQuery1 :: string where
  \<open>byIdQuery1 =
     ''\<newline>'' @
     ''        SELECT ?item ?itemLabel ?typeId ?typeLabel ?coord ?locatedInLabel \<newline>'' @
     ''                ?width ?length ?surfaceArea ?capacity ?inception ?description\<newline>'' @
     ''        WHERE {\<newline>'' @
     ''            BIND(wd:''\<close>

definition byIdQuery2 :: string where
  \<open>byIdQuery2 =
     '' AS ?item)\<newline>'' @
     ''            \<newline>'' @
     ''            # Get the specific type\<newline>'' @
     ''            ?item wdt:P31 ?typeId.\<newline>'' @
     ''            ?typeId rdfs:label ?typeLabel.\<newline>'' @
     ''            FILTER(LANG(?typeLabel) = "en")\<newline>'' @
     ''            \<newline>'' @
     ''            # Name\<newline>'' @
     ''            ?item rdfs:label ?itemLabel.\<newline>'' @
     ''            FILTER(LANG(?itemLabel) = "en")\<newline>'' @
     ''            \<newline>'' @
     ''            # Coordinates\<newline>'' @
     ''            OPTIONAL { ?item wdt:P625 ?coord. }\<newline>'' @
     ''            \<newline>'' @
     ''            # Location\<newline>'' @
     ''            OPTIONAL { \<newline>'' @
     ''            ?item wdt:P131 ?locatedIn. \<newline>'' @
     ''            ?locatedIn rdfs:label ?locatedInLabel.\<newline>'' @
     ''            FILTER(LANG(?locatedInLabel) = "en")\<newline>'' @
     ''            }\<newline>'' @
     ''            \<newline>'' @
     ''            # width\<newline>'' @
     ''            OPTIONAL { ?item wdt:P2048 ?width. }\<newline>'' @
     ''            \<newline>'' @
     ''            # Length\<newline>'' @
     ''            OPTIONAL { ?item wdt:P2043 ?length. }\<newline>'' @
     ''            \<newline>'' @
     ''            # Surface area\<newline>'' @
     ''            OPTIONAL { ?item wdt:P2046 ?surfaceArea. }\<newline>'' @
     ''            \<newline>'' @
     ''            # Capacity\<newline>'' @
     ''            OPTIONAL { ?item wdt:P2234 ?capacity. }\<newline>'' @
     ''            \<newline>'' @
     ''            # Inception date\<newline>'' @
     ''            OPTIONAL { ?item wdt:P571 ?inception. }\<newline>'' @
     ''            \<newline>'' @
     ''            # Description\<newline>'' @
     ''            OPTIONAL {\<newline>'' @
     ''            ?item schema:description ?description.\<newline>'' @
     ''            FILTER(LANG(?description) = "en")\<newline>'' @
     ''            }\<newline>'' @
     ''        }\<newline>'' @
     ''        LIMIT 1\<newline>'' @
     ''        ''\<close>


definition typeFilter :: "string option \<Rightarrow> string" where
  "typeFilter ty =
     (case ty of
        None \<Rightarrow> typeFilterAll1 @ join (map (\<lambda>key. ''wd:'' @ lookupText typeMapping key) waterFeatureTypes) '' ''
                 @ typeFilterAll2
      | Some t \<Rightarrow>
          if t \<noteq> [] \<and> t \<in> set waterFeatureTypes
          then typeFilterOne1 @ lookupText typeMapping t @ typeFilterOne2
          else typeFilterAll1 @ join (map (\<lambda>key. ''wd:'' @ lookupText typeMapping key) waterFeatureTypes) '' ''
                 @ typeFilterAll2)"

definition regionFilter :: "string option \<Rightarrow> string" where
  "regionFilter reg =
     (case reg of
        None \<Rightarrow> []
      | Some r \<Rightarrow> if r \<noteq> [] then regionFilter1 @ r @ regionFilter2 else [])"

text \<open>\<open>if (minCapacity)\<close> and \<open>if (minSurfaceArea)\<close>: \<open>null\<close> and \<open>0\<close> are falsy.\<close>

definition capacityFilter :: "int option \<Rightarrow> string" where
  "capacityFilter minCap =
     (case minCap of
        None \<Rightarrow> []
      | Some n \<Rightarrow> if n \<noteq> 0 then capacityFilter1 @ intToString n @ capacityFilter2 else [])"

definition surfaceAreaFilter :: "int option \<Rightarrow> string" where
  "surfaceAreaFilter minArea =
     (case minArea of
        None \<Rightarrow> []
      | Some n \<Rightarrow> if n \<noteq> 0 then surfaceAreaFilter1 @ intToString n @ surfaceAreaFilter2 else [])"

text \<open>\<open>sortMapping[sortBy] || sortMapping.name\<close>, with the default \<open>sortBy = 'name'\<close>.\<close>

definition sortField :: "string option \<Rightarrow> string" where
  "sortField sb =
     (case getProperty sortMapping (case sb of None \<Rightarrow> ''name'' | Some s \<Rightarrow> s) of
        None \<Rightarrow> lookupText sortMapping ''name''
      | Some v \<Rightarrow> v)"

definition buildWaterFeaturesQuery :: "queryParams \<Rightarrow> string" where
  "buildWaterFeaturesQuery p =
     querySelect @ typeFilter (typeParam p) @ queryPatterns @ regionFilter (region p) @ queryGap
     @ capacityFilter (minCapacity p) @ queryGap @ surfaceAreaFilter (minSurfaceArea p)
     @ queryGroupOrder @ (if sortOrder p = Some ''DESC'' then ''DESC'' else ''ASC'')
     @ ''('' @ sortField (sortBy p) @ queryLimitClause
     @ intToString (case limit p of None \<Rightarrow> queryLimit | Some n \<Rightarrow> n) @ queryOffsetClause
     @ intToString (case offset p of None \<Rightarrow> 0 | Some n \<Rightarrow> n) @ queryEnd"

definition buildWaterFeatureByIdQuery :: "string \<Rightarrow> string" where
  "buildWaterFeatureByIdQuery ident = byIdQuery1 @ ident @ byIdQuery2"

section \<open>The retrieval orchestrator (\<open>SparqlClient\<close>)\<close>

text \<open>
  The surroundings of a call: \<open>clock env k\<close> is what the \<open>k\<close>-th \<open>Date.now()\<close> returns
  and \<open>fetch env k q\<close> is the answer of the endpoint to the \<open>k\<close>-th request, sent with
  query text \<open>q\<close>: a result set, a response that is not \<open>ok\<close> with its body, or a
  rejected promise. The state is the shared cache manager, the number of clock readings,
  the requests sent so far and what \<open>preloadCache\<close> has written with \<open>console.error\<close>.
  A call runs alone: no other request touches the cache while it waits for the endpoint.
\<close>

datatype response = Ok rawResults | NotOk string | Rejected error

record env =
  clock :: "nat \<Rightarrow> int"
  fetch :: "nat \<Rightarrow> string \<Rightarrow> response"

record world =
  cm :: "jsdata cacheManager"
  ticks :: nat
  requests :: "string list"
  errorLog :: "(string \<times> error) list"

text \<open>The entry the shared cache holds for a key.\<close>

abbreviation cached :: "world \<Rightarrow> string \<Rightarrow> jsdata cacheEntry option" where
  "cached w key \<equiv> map_of (cache (cm w)) key"

text \<open>\<open>cacheManager.get\<close> and \<open>cacheManager.set\<close> on the shared instance; \<open>get\<close> reads
  the clock only when the key is in the map.\<close>

definition cacheGet :: "env \<Rightarrow> string \<Rightarrow> world \<Rightarrow> jsdata option \<times> world" where
  "cacheGet e key w =
     (case map_of (cache (cm w)) key of
        None \<Rightarrow> (None, w)
      | Some _ \<Rightarrow>
          (let (r, cm') = get_cm (cm w) key (clock e (ticks w))
           in (r, w\<lparr>cm := cm', ticks := Suc (ticks w)\<rparr>)))"

definition cacheSet :: "env \<Rightarrow> string \<Rightarrow> jsdata \<Rightarrow> int option \<Rightarrow> world \<Rightarrow> jsdata \<times> world" where
  "cacheSet e key d ttl w =
     (let (r, cm') = set_cm (cm w) key d ttl (clock e (ticks w))
      in (r, w\<lparr>cm := cm', ticks := Suc (ticks w)\<rparr>))"

text \<open>\<open>query\<close>: every cached value is an object or an array, hence truthy.\<close>

definition query :: "env \<Rightarrow> string \<Rightarrow> world \<Rightarrow> (error + jsdata) \<times> world" where
  "query e sparqlQuery w =
     (case cacheGet e (hashString (cm w) sparqlQuery) w of
        (Some cachedResult, w1) \<Rightarrow> (Inr cachedResult, w1)
      | (None, w1) \<Rightarrow>
          (let w2 = w1\<lparr>requests := requests w1 @ [sparqlQuery]\<rparr>
           in case fetch e (length (requests w1)) sparqlQuery of
                Rejected err \<Rightarrow> (Inl err, w2)
              | NotOk body \<Rightarrow> (Inl (Error (''SPARQL query failed: '' @ body)), w2)
              | Ok raw \<Rightarrow>
                  (let (_, w3) = cacheSet e (hashString (cm w2) sparqlQuery) (Results raw) None w2
                   in (Inr (Results raw), w3))))"

text \<open>\<open>preloadCache\<close>: the body of the \<open>try\<close> for one type, and the loop with its
  \<open>catch\<close>.\<close>

definition preloadType :: "env \<Rightarrow> string \<Rightarrow> world \<Rightarrow> (error + unit) \<times> world" where
  "preloadType e ty w =
     (let q = buildWaterFeaturesQuery (noParams\<lparr>typeParam := Some ty, limit := Some queryLimit\<rparr>)
      in case query e q w of
           (Inl err, w1) \<Rightarrow> (Inl err, w1)
         | (Inr res, w1) \<Rightarrow>
             (case transformResults res of
                Inl err \<Rightarrow> (Inl err, w1)
              | Inr transformedResults \<Rightarrow>
                  (let (_, w2) = cacheSet e (''ALL_'' @ ty) (FeatureList transformedResults)
                                   (Some (12 * 60 * 60 * 1000)) w1
                   in (Inr (), w2))))"

fun preloadLoop :: "env \<Rightarrow> string list \<Rightarrow> world \<Rightarrow> (error + unit) \<times> world" where
  "preloadLoop e [] w = (Inr (), w)"
| "preloadLoop e (ty # tys) w =
     (case preloadType e ty w of
        (Inl err, w1) \<Rightarrow> preloadLoop e tys (w1\<lparr>errorLog := errorLog w1 @ [(ty, err)]\<rparr>)
      | (Inr _, w1) \<Rightarrow> preloadLoop e tys w1)"

definition preloadCache :: "env \<Rightarrow> world \<Rightarrow> (error + unit) \<times> world" where
  "preloadCache e w = preloadLoop e waterFeatureTypes w"

text \<open>\<open>getWaterFeatureById\<close>: the loop over the type caches, then the query.
  \<open>features.find\<close> exists on an array only.\<close>

fun scanTypeCaches :: "env \<Rightarrow> string \<Rightarrow> string list \<Rightarrow> world \<Rightarrow> (error + waterFeature option) \<times> world" where
  "scanTypeCaches e ident [] w = (Inr None, w)"
| "scanTypeCaches e ident (ty # tys) w =
     (case cacheGet e (''ALL_'' @ ty) w of
        (None, w1) \<Rightarrow> scanTypeCaches e ident tys w1
      | (Some (FeatureList features), w1) \<Rightarrow>
          (case find (\<lambda>f. id' f = ident) features of
             Some feature \<Rightarrow> (Inr (Some feature), w1)
           | None \<Rightarrow> scanTypeCaches e ident tys w1)
      | (Some _, w1) \<Rightarrow> (Inl (TypeError ''features.find is not a function''), w1))"

declare scanTypeCaches.simps(2) [simp del]

definition getWaterFeatureById :: "env \<Rightarrow> string \<Rightarrow> world \<Rightarrow> (error + waterFeature option) \<times> world" where
  "getWaterFeatureById e ident w =
     (case scanTypeCaches e ident waterFeatureTypes w of
        (Inl err, w1) \<Rightarrow> (Inl err, w1)
      | (Inr (Some feature), w1) \<Rightarrow> (Inr (Some feature), w1)
      | (Inr None, w1) \<Rightarrow>
          (case query e (buildWaterFeatureByIdQuery ident) w1 of
             (Inl err, w2) \<Rightarrow> (Inl err, w2)
           | (Inr res, w2) \<Rightarrow>
               (case transformResults res of
                  Inl err \<Rightarrow> (Inl err, w2)
                | Inr [] \<Rightarrow> (Inr None, w2)
                | Inr (feature # _) \<Rightarrow>
                    (let (_, w3) = cacheSet e (''FEATURE_'' @ ident) (Feature feature) None w2
                     in (Inr (Some feature), w3)))))"

text \<open>The entries under the four keys \<open>ALL_type\<close> hold feature lists: only
  \<open>preloadCache\<close> and \<open>getAllFeaturesOfType\<close> write them, with normalized lists.\<close>

definition typedCaches :: "world \<Rightarrow> bool" where
  "typedCaches w =
     (\<forall>t \<in> set waterFeatureTypes. \<forall>en. cached w (''ALL_'' @ t) = Some en \<longrightarrow>
        (\<exists>fs. data en = FeatureList fs))"

text \<open>What a scan of the type lists observes, said without the scan. A type is
  \<open>present\<close> when the cache has an entry under \<open>ALL_type\<close>, expired or not: \<open>get\<close> reads
  the clock for a present key only, so the reading that the scan of the list \<open>tys\<close> takes
  for the type \<open>ty\<close> is the one numbered \<open>readingOf w tys ty\<close>, and the first reading
  after the whole scan is \<open>scanReadings w\<close>.\<close>

definition present :: "world \<Rightarrow> string \<Rightarrow> bool" where
  "present w ty = (cached w (''ALL_'' @ ty) \<noteq> None)"

definition readingOf :: "world \<Rightarrow> string list \<Rightarrow> string \<Rightarrow> nat" where
  "readingOf w tys ty = ticks w + length (filter (present w) (takeWhile (\<lambda>t. t \<noteq> ty) tys))"

definition scanReadings :: "world \<Rightarrow> nat" where
  "scanReadings w = ticks w + length (filter (present w) waterFeatureTypes)"

text \<open>The data under a key that is live at the clock reading \<open>n\<close>: there is an entry
  and the reading is not greater than its expiry.\<close>

definition liveData :: "env \<Rightarrow> nat \<Rightarrow> world \<Rightarrow> string \<Rightarrow> jsdata option" where
  "liveData e n w key =
     (case cached w key of
        None \<Rightarrow> None
      | Some en \<Rightarrow> if expired (clock e n) (expiryTime en) then None else Some (data en))"

text \<open>\<open>f\<close> is the first record of \<open>fs\<close> whose identifier is \<open>ident\<close>; the type \<open>ty\<close>
  serves \<open>f\<close> for \<open>ident\<close> when its list is live at the reading of its turn and \<open>f\<close> is
  the first record of the list with that identifier.\<close>

definition firstWithId :: "string \<Rightarrow> waterFeature list \<Rightarrow> waterFeature \<Rightarrow> bool" where
  "firstWithId ident fs f =
     (\<exists>i < length fs. fs ! i = f \<and> id' f = ident \<and> (\<forall>j < i. id' (fs ! j) \<noteq> ident))"

definition serves :: "env \<Rightarrow> world \<Rightarrow> string list \<Rightarrow> string \<Rightarrow> string \<Rightarrow> waterFeature \<Rightarrow> bool" where
  "serves e w tys ident ty f =
     (\<exists>fs. liveData e (readingOf w tys ty) w (''ALL_'' @ ty) = Some (FeatureList fs) \<and>
           firstWithId ident fs f)"

section \<open>Properties of the TTL cache\<close>

lemma addNumber_simps [simp]:
  "addNumber now None = None" "addNumber now (Some t) = Some (now + t)"
  by (simp_all add: addNumber_def)

lemma expired_simps [simp]:
  "expired now None = False" "expired now (Some x) = (now > x)"
  by (simp_all add: expired_def)

lemma cleanupStep_pair:
  "cleanupStep now (k, e) c = (if expired now (expiryTime e) then AList.delete k c else c)"
  by (simp add: cleanupStep_def)

text \<open>The loop of \<open>cleanupExpiredEntries\<close> removes the keys of the expired entries it
  visits.\<close>

lemma fold_cleanupStep:
  "fold (cleanupStep now) xs c =
     filter (\<lambda>p. fst p \<notin> fst ` {x \<in> set xs. expired now (expiryTime (snd x))}) c"
proof (induction xs arbitrary: c)
  case Nil
  then show ?case by simp
next
  case (Cons x xs)
  obtain k e where x: "x = (k, e)" by (cases x)
  show ?case
  proof (cases "expired now (expiryTime e)")
    case True
    have "fold (cleanupStep now) (x # xs) c
        = filter (\<lambda>p. fst p \<notin> fst ` {x \<in> set xs. expired now (expiryTime (snd x))})
            (filter (\<lambda>p. k \<noteq> fst p) c)"
      using True by (simp add: x cleanupStep_pair Cons.IH AList.delete_eq case_prod_beta)
    also have "\<dots> = filter (\<lambda>p. fst p \<notin> fst ` {y \<in> set (x # xs). expired now (expiryTime (snd y))}) c"
      using True unfolding filter_filter by (intro filter_cong) (force simp: x image_iff)+
    finally show ?thesis .
  next
    case False
    have "fold (cleanupStep now) (x # xs) c
        = filter (\<lambda>p. fst p \<notin> fst ` {x \<in> set xs. expired now (expiryTime (snd x))}) c"
      using False by (simp add: x cleanupStep_pair Cons.IH)
    also have "\<dots> = filter (\<lambda>p. fst p \<notin> fst ` {y \<in> set (x # xs). expired now (expiryTime (snd y))}) c"
      using False by (intro filter_cong) (auto simp: x)
    finally show ?thesis .
  qed
qed

text \<open>The operations keep one entry per key, from the empty map of the constructor on.\<close>

lemma wf_cache_new: "wf_cache (newCacheManager ttl)"
  by (simp add: wf_cache_def newCacheManager_def)

lemma wf_cache_set: "wf_cache m \<Longrightarrow> wf_cache (snd (set_cm m k v ttl now))"
  by (simp add: wf_cache_def set_cm_def Let_def distinct_update)

lemma wf_cache_get: "wf_cache m \<Longrightarrow> wf_cache (snd (get_cm m k now))"
  by (auto simp: wf_cache_def get_cm_def distinct_delete split: option.splits)

lemma wf_cache_cleanup: "wf_cache m \<Longrightarrow> wf_cache (cleanupExpiredEntries m now)"
  by (simp add: wf_cache_def cleanupExpiredEntries_def fold_cleanupStep distinct_map_filter)

lemma wf_cache_clear: "wf_cache (clear m)"
  by (simp add: wf_cache_def clear_def)

text \<open>
  Claim C1. After \<open>set(k, v, t)\<close> at time \<open>T\<close>, which returns \<open>v\<close>, a \<open>get(k)\<close> at a time
  \<open>T' \<le> T + t\<close> returns \<open>v\<close> and leaves the store as it is; a \<open>get(k)\<close> at a time
  \<open>T' > T + t\<close> returns \<open>null\<close> and removes the entry of \<open>k\<close>, and only that entry,
  from the store. \<open>get\<close> has no failing branch: absence and expiry are both the
  \<open>null\<close> result.
\<close>

theorem get_after_set:
  "fst (set_cm m k v (Some t) T) = v \<and>
   (T' \<le> T + t \<longrightarrow>
      get_cm (snd (set_cm m k v (Some t) T)) k T' = (Some v, snd (set_cm m k v (Some t) T))) \<and>
   (T' > T + t \<longrightarrow>
      fst (get_cm (snd (set_cm m k v (Some t) T)) k T') = None \<and>
      map_of (cache (snd (get_cm (snd (set_cm m k v (Some t) T)) k T'))) k = None \<and>
      cache (snd (get_cm (snd (set_cm m k v (Some t) T)) k T')) = AList.delete k (cache m))"
  by (auto simp: set_cm_def get_cm_def addNumber_def expired_def update_conv' delete_conv' Let_def
      AList.delete_update_same)

theorem get_after_set_witness:
  "get_cm (snd (set_cm (newCacheManager (Some 1000)) ''k'' ''v'' (Some 100) 0)) ''k'' 0
     = (Some ''v'', snd (set_cm (newCacheManager (Some 1000)) ''k'' ''v'' (Some 100) 0)) \<and>
   fst (get_cm (snd (set_cm (newCacheManager (Some 1000)) ''k'' ''v'' (Some 100) 0)) ''k'' 150) = None \<and>
   cache (snd (get_cm (snd (set_cm (newCacheManager (Some 1000)) ''k'' ''v'' (Some 100) 0)) ''k'' 150)) = []"
  using get_after_set [of "newCacheManager (Some 1000)" "''k''" "''v''" 100 0 0]
    get_after_set [of "newCacheManager (Some 1000)" "''k''" "''v''" 100 0 150]
  by (simp add: newCacheManager_def)

text \<open>
  Claim C5. On a store with one entry per key, \<open>cleanupExpiredEntries\<close> at time \<open>now\<close>
  leaves exactly the entries whose expiry has not passed (\<open>now > expiryTime\<close> is false), in their
  order and with key, data and expiry as they were, and touches nothing else of the
  manager.
\<close>

theorem cleanupExpiredEntries_exact:
  assumes "wf_cache m"
  shows "cleanupExpiredEntries m now =
           m\<lparr>cache := filter (\<lambda>(k, e). \<not> expired now (expiryTime e)) (cache m)\<rparr>"
proof -
  have d: "distinct (map fst (cache m))"
    using assms by (simp add: wf_cache_def)
  have "(fst p \<notin> fst ` {x \<in> set (cache m). expired now (expiryTime (snd x))}) = (\<not> expired now (expiryTime (snd p)))"
    if p: "p \<in> set (cache m)" for p
  proof (cases "expired now (expiryTime (snd p))")
    case True
    then show ?thesis using p by auto
  next
    case False
    have "x = p" if "x \<in> set (cache m)" "fst x = fst p" for x
      using d p that by (metis eq_key_imp_eq_value prod.collapse)
    then show ?thesis using False by auto
  qed
  then have "filter (\<lambda>p. fst p \<notin> fst ` {x \<in> set (cache m). expired now (expiryTime (snd x))}) (cache m)
      = filter (\<lambda>p. \<not> expired now (expiryTime (snd p))) (cache m)"
    by (intro filter_cong) simp_all
  then show ?thesis
    by (simp add: cleanupExpiredEntries_def fold_cleanupStep case_prod_beta [abs_def])
qed

theorem cleanupExpiredEntries_exact_witness:
  "wf_cache \<lparr>cache = [(''a'', \<lparr>data = ''x'', expiryTime = Some 10\<rparr>), (''b'', \<lparr>data = ''y'', expiryTime = Some 30\<rparr>),
                      (''c'', \<lparr>data = ''z'', expiryTime = Some 20\<rparr>)],
             queryCache = [], defaultTTL = Some 5\<rparr> \<and>
   cleanupExpiredEntries
       \<lparr>cache = [(''a'', \<lparr>data = ''x'', expiryTime = Some 10\<rparr>), (''b'', \<lparr>data = ''y'', expiryTime = Some 30\<rparr>),
                 (''c'', \<lparr>data = ''z'', expiryTime = Some 20\<rparr>)],
        queryCache = [], defaultTTL = Some 5\<rparr> 20
     = \<lparr>cache = [(''b'', \<lparr>data = ''y'', expiryTime = Some 30\<rparr>), (''c'', \<lparr>data = ''z'', expiryTime = Some 20\<rparr>)],
        queryCache = [], defaultTTL = Some 5\<rparr>"
proof -
  have wf: "wf_cache \<lparr>cache = [(''a'', \<lparr>data = ''x'', expiryTime = Some 10\<rparr>), (''b'', \<lparr>data = ''y'', expiryTime = Some 30\<rparr>),
                      (''c'', \<lparr>data = ''z'', expiryTime = Some 20\<rparr>)],
             queryCache = [], defaultTTL = Some 5\<rparr>"
    by (simp add: wf_cache_def)
  show ?thesis
    using wf cleanupExpiredEntries_exact [OF wf, of 20] by (simp add: expired_def)
qed

text \<open>
  Claim C6. \<open>hashString\<close> is a function of its text alone: it returns the same key in
  whatever state the cache manager is (the fold of the 32-bit step over the code units,
  in decimal), so the text built from one filter specification has one key, and
  \<open>getCachedQuery\<close> looks a query text up in the slot where \<open>cacheQuery\<close> stored it.
\<close>

theorem hashString_deterministic:
  "hashString m s = hashString m' s \<and>
   hashString m s = intToString (fold hashStep s 0) \<and>
   hashString m (buildWaterFeaturesQuery p) = hashString m' (buildWaterFeaturesQuery p) \<and>
   fst (getCachedQuery (snd (cacheQuery m s d (Some t) T)) s T')
     = (if T' > T + t then None else Some d)"
  by (simp add: hashString_def getCachedQuery_def cacheQuery_def set_cm_def get_cm_def
      addNumber_def expired_def update_conv' Let_def)

section \<open>Properties of the result normalizer\<close>

lemmas parseFloat_eval = parseFloat_def stripSign_def isWhiteSpace_def isDigit_def
  digitsValue_def exponentPart_def pow10_def roundNumber_def

lemma split_nonempty: "split sep s \<noteq> []"
  by (induction s) (auto split: list.splits)

lemma includes'_sublist: "includes' xs ys = sublist ys xs"
  by (induction xs) (auto simp: sublist_Cons_right)

lemma sublist_map_iff: "sublist ys (map f xs) = (\<exists>ps w ss. xs = ps @ w @ ss \<and> map f w = ys)"
proof
  assume "sublist ys (map f xs)"
  then obtain a c where eq: "map f xs = a @ ys @ c"
    by (auto simp: sublist_def)
  let ?w = "take (length ys) (drop (length a) xs)"
  have "map f ?w = take (length ys) (drop (length a) (map f xs))"
    by (simp add: take_map drop_map)
  also have "\<dots> = ys"
    by (simp add: eq)
  finally have w: "map f ?w = ys" .
  have "xs = take (length a) xs @ ?w @ drop (length ys) (drop (length a) xs)"
    by (simp only: append_take_drop_id)
  with w show "\<exists>ps w ss. xs = ps @ w @ ss \<and> map f w = ys"
    by blast
next
  assume "\<exists>ps w ss. xs = ps @ w @ ss \<and> map f w = ys"
  then obtain ps w ss where "xs = ps @ w @ ss" "map f w = ys"
    by blast
  then have "map f xs = map f ps @ ys @ map f ss"
    by simp
  then show "sublist ys (map f xs)"
    unfolding sublist_def by blast
qed

lemma includes'_toLowerCase:
  "toLowerCase kw = kw \<Longrightarrow> includes' (toLowerCase label) kw = containsIgnoringCase label kw"
  by (simp add: includes'_sublist containsIgnoringCase_def toLowerCase_def sublist_map_iff)

lemma toLowerCase_keywords:
  "toLowerCase ''dam'' = ''dam''" "toLowerCase ''reservoir'' = ''reservoir''"
  "toLowerCase ''river'' = ''river''" "toLowerCase ''lake'' = ''lake''"
  by (simp_all add: toLowerCase_def toLowerChar_def)

lemma inferType_chain:
  "inferType b =
     (case b ''typeLabel'' of
        None \<Rightarrow> ''LAKE''
      | Some label \<Rightarrow>
          if containsIgnoringCase label ''dam'' then ''DAM''
          else if containsIgnoringCase label ''reservoir'' then ''RESERVOIR''
          else if containsIgnoringCase label ''river'' then ''RIVER''
          else if containsIgnoringCase label ''lake'' then ''LAKE''
          else ''LAKE'')"
  by (simp add: inferType_def Let_def includes'_toLowerCase toLowerCase_keywords split: option.splits)

lemma inferType_Reservoir_Lake:
  "b ''typeLabel'' = Some ''Reservoir Lake'' \<Longrightarrow> inferType b = ''RESERVOIR''"
  by (simp add: inferType_def toLowerCase_def toLowerChar_def char_of_def)

lemma inferType_Artificial_Dam:
  "b ''typeLabel'' = Some ''Artificial Dam'' \<Longrightarrow> inferType b = ''DAM''"
  by (simp add: inferType_def toLowerCase_def toLowerChar_def char_of_def)

lemma transformBinding_Inr:
  "transformBinding b = Inr r \<longleftrightarrow>
     (\<exists>itemValue. b ''item'' = Some itemValue \<and>
        r = \<lparr>id' = pop (split CHR ''/'' itemValue),
             name = (case b ''itemLabel'' of Some v \<Rightarrow> v | None \<Rightarrow> ''Unknown''),
             type' = inferType b,
             location = mkLocation (fst (parseCoord b)) (snd (parseCoord b)),
             locatedIn = b ''locatedInLabel'',
             width = map_option parseFloat (b ''width''),
             length' = map_option parseFloat (b ''length''),
             surfaceArea = map_option parseFloat (b ''surfaceArea''),
             capacity = map_option parseFloat (b ''capacity''),
             inceptionDate = b ''inception'',
             wikidataUrl = ''https://www.wikidata.org/wiki/'' @ pop (split CHR ''/'' itemValue),
             description = b ''description''\<rparr>)"
  by (auto simp: transformBinding_def Let_def split: option.splits prod.splits)

lemma transformBinding_no_item:
  "b ''item'' = None \<Longrightarrow>
     transformBinding b = Inl (TypeError ''Cannot read properties of undefined (reading 'value')'')"
  by (simp add: transformBinding_def split: prod.splits)

text \<open>What the record holds as its coordinates: the parsed pair when the pattern
  matches and both parsed numbers are truthy, and \<open>null\<close> otherwise.\<close>

lemma transformBinding_location:
  assumes "transformBinding b = Inr r"
  shows "location r =
           (case b ''coord'' of
              None \<Rightarrow> None
            | Some coordValue \<Rightarrow>
                (case matchPoint coordValue of
                   None \<Rightarrow> None
                 | Some (lon, lat) \<Rightarrow>
                     if truthyNumber (parseFloat lat) \<and> truthyNumber (parseFloat lon)
                     then Some \<lparr>latitude = parseFloat lat, longitude = parseFloat lon\<rparr>
                     else None))"
  using assms
  by (auto simp: transformBinding_Inr parseCoord_def mkLocation_def truthy_def
      split: option.splits prod.splits)

lemma parseFloat_0: "parseFloat ''0'' = Num 0"
  by (simp add: parseFloat_eval)

lemma parseFloat_42_1: "parseFloat ''42.1'' = Num (421 / 10)"
  by (simp add: parseFloat_eval)

lemma parseFloat_23_5: "parseFloat ''23.5'' = Num (47 / 2)"
  by (simp add: parseFloat_eval)

lemma matchPoint_0_42_1: "matchPoint ''Point(0 42.1)'' = Some (''0'', ''42.1'')"
  by (simp add: matchPoint.simps matchPointAt_def)

lemma matchPoint_23_5_42_1: "matchPoint ''Point(23.5 42.1)'' = Some (''23.5'', ''42.1'')"
  by (simp add: matchPoint.simps matchPointAt_def)

text \<open>The round trip of the specification: \<open>Point(23.5 42.1)\<close> gives longitude 23.5
  and latitude 42.1.\<close>

lemma transformBinding_Point_23_5_42_1:
  "transformBinding [''item'' \<mapsto> ''http://www.wikidata.org/entity/Q1'', ''coord'' \<mapsto> ''Point(23.5 42.1)'']
     = Inr \<lparr>id' = ''Q1'', name = ''Unknown'', type' = ''LAKE'',
            location = Some \<lparr>latitude = Num (421 / 10), longitude = Num (47 / 2)\<rparr>,
            locatedIn = None, width = None, length' = None, surfaceArea = None, capacity = None,
            inceptionDate = None, wikidataUrl = ''https://www.wikidata.org/wiki/Q1'',
            description = None\<rparr>"
  by (simp add: transformBinding_def parseCoord_def matchPoint_23_5_42_1 parseFloat_23_5
      parseFloat_42_1 pop_def inferType_def mkLocation_def truthy_def truthyNumber_def Let_def)

text \<open>
  Claim C2, at the binding whose \<open>coord\<close> is \<open>Point(0 42.1)\<close>: the pattern matches and
  the parsed pair is longitude 0 and latitude 42.1, but \<open>latitude && longitude\<close> is falsy
  and the record has no coordinates.
\<close>

theorem location_lost_at_zero:
  "parseCoord [''item'' \<mapsto> ''http://www.wikidata.org/entity/Q1'', ''coord'' \<mapsto> ''Point(0 42.1)'']
     = (Some (Num (421 / 10)), Some (Num 0)) \<and>
   transformBinding [''item'' \<mapsto> ''http://www.wikidata.org/entity/Q1'', ''coord'' \<mapsto> ''Point(0 42.1)'']
     = Inr \<lparr>id' = ''Q1'', name = ''Unknown'', type' = ''LAKE'', location = None,
            locatedIn = None, width = None, length' = None, surfaceArea = None, capacity = None,
            inceptionDate = None, wikidataUrl = ''https://www.wikidata.org/wiki/Q1'',
            description = None\<rparr>"
  by (simp add: transformBinding_def parseCoord_def matchPoint_0_42_1 parseFloat_0
      parseFloat_42_1 pop_def inferType_def mkLocation_def truthy_def truthyNumber_def Let_def)

text \<open>
  Claim C4. The category of the record normalized from a binding is \<open>LAKE\<close> when the
  binding has no \<open>typeLabel\<close>; otherwise it is \<open>DAM\<close> if the label contains \<open>dam\<close>, letter
  case ignored, else \<open>RESERVOIR\<close> if it contains \<open>reservoir\<close>, else \<open>RIVER\<close> if it contains
  \<open>river\<close>, else \<open>LAKE\<close> (whether it contains \<open>lake\<close> or matches nothing). The label
  \<open>Reservoir Lake\<close> gives \<open>RESERVOIR\<close> and \<open>Artificial Dam\<close> gives \<open>DAM\<close>.
\<close>

theorem category_first_match:
  assumes "transformBinding b = Inr r"
  shows "type' r =
           (case b ''typeLabel'' of
              None \<Rightarrow> ''LAKE''
            | Some label \<Rightarrow>
                if containsIgnoringCase label ''dam'' then ''DAM''
                else if containsIgnoringCase label ''reservoir'' then ''RESERVOIR''
                else if containsIgnoringCase label ''river'' then ''RIVER''
                else if containsIgnoringCase label ''lake'' then ''LAKE''
                else ''LAKE'') \<and>
         (b ''typeLabel'' = Some ''Reservoir Lake'' \<longrightarrow> type' r = ''RESERVOIR'') \<and>
         (b ''typeLabel'' = Some ''Artificial Dam'' \<longrightarrow> type' r = ''DAM'')"
proof -
  have "type' r = inferType b"
    using assms by (auto simp: transformBinding_Inr)
  then show ?thesis
    using inferType_chain [of b] inferType_Reservoir_Lake [of b] inferType_Artificial_Dam [of b]
    by simp
qed

theorem category_first_match_witness:
  "transformBinding [''item'' \<mapsto> ''http://www.wikidata.org/entity/Q2'', ''typeLabel'' \<mapsto> ''Reservoir Lake'']
     = Inr \<lparr>id' = ''Q2'', name = ''Unknown'', type' = ''RESERVOIR'', location = None,
            locatedIn = None, width = None, length' = None, surfaceArea = None, capacity = None,
            inceptionDate = None, wikidataUrl = ''https://www.wikidata.org/wiki/Q2'',
            description = None\<rparr> \<and>
   \<not> containsIgnoringCase ''Reservoir Lake'' ''dam'' \<and>
   containsIgnoringCase ''Reservoir Lake'' ''reservoir'' \<and>
   containsIgnoringCase ''Reservoir Lake'' ''lake''"
proof -
  let ?b = "[''item'' \<mapsto> ''http://www.wikidata.org/entity/Q2'', ''typeLabel'' \<mapsto> ''Reservoir Lake'']"
  let ?r = "\<lparr>id' = ''Q2'', name = ''Unknown'', type' = ''RESERVOIR'', location = None,
            locatedIn = None, width = None, length' = None, surfaceArea = None, capacity = None,
            inceptionDate = None, wikidataUrl = ''https://www.wikidata.org/wiki/Q2'',
            description = None\<rparr>"
  have t: "transformBinding ?b = Inr ?r"
    by (simp add: transformBinding_def parseCoord_def pop_def inferType_Reservoir_Lake
        mkLocation_def truthy_def Let_def)
  have c: "containsIgnoringCase ''Reservoir Lake'' kw = includes' ''reservoir lake'' kw"
    if "toLowerCase kw = kw" for kw
    using includes'_toLowerCase [OF that, of "''Reservoir Lake''"]
    by (simp add: toLowerCase_def toLowerChar_def char_of_def)
  show ?thesis
    using t category_first_match [OF t]
    by (simp add: c toLowerCase_keywords)
qed

text \<open>
  Claim C9. A raw result set without its \<open>results\<close> container, without the \<open>bindings\<close>
  list in it, or with an empty \<open>bindings\<close> list normalizes to the empty list, and not
  to an error.
\<close>

theorem transformResults_empty:
  "transformResults (Results \<lparr>results = None\<rparr>) = Inr [] \<and>
   transformResults (Results \<lparr>results = Some \<lparr>bindings = None\<rparr>\<rparr>) = Inr [] \<and>
   transformResults (Results \<lparr>results = Some \<lparr>bindings = Some []\<rparr>\<rparr>) = Inr []"
  by (simp add: transformResults_def)

text \<open>\<open>normalize\<close> is \<open>transformResults\<close>: the callback runs on every binding of the result
  set, and the first one that throws ends the call.\<close>

lemma mapBindings_Inr:
  "mapBindings bs = Inr rs \<longleftrightarrow> list_all2 (\<lambda>b r. transformBinding b = Inr r) bs rs"
proof (induction bs arbitrary: rs)
  case Nil
  then show ?case by auto
next
  case (Cons b bs)
  have IH: "list_all2 (\<lambda>b r. transformBinding b = Inr r) bs rs' = (mapBindings bs = Inr rs')" for rs'
    by (simp add: Cons.IH)
  show ?case
    by (cases rs) (auto simp: IH split: sum.splits)
qed

lemma mapBindings_total:
  "\<forall>b \<in> set bs. b ''item'' \<noteq> None \<Longrightarrow> \<exists>rs. mapBindings bs = Inr rs"
proof (induction bs)
  case Nil
  then show ?case by simp
next
  case (Cons b bs)
  then obtain u where "b ''item'' = Some u" by auto
  then obtain r where "transformBinding b = Inr r"
    by (auto simp: transformBinding_Inr)
  moreover obtain rs where "mapBindings bs = Inr rs"
    using Cons by auto
  ultimately show ?case by simp
qed

lemma mapBindings_no_item:
  "\<exists>b \<in> set bs. b ''item'' = None \<Longrightarrow>
     mapBindings bs = Inl (TypeError ''Cannot read properties of undefined (reading 'value')'')"
proof (induction bs)
  case Nil
  then show ?case by simp
next
  case (Cons b bs)
  show ?case
  proof (cases "b ''item''")
    case None
    then show ?thesis by (simp add: transformBinding_no_item)
  next
    case (Some u)
    then obtain r where r: "transformBinding b = Inr r"
      by (auto simp: transformBinding_Inr)
    have "\<exists>b \<in> set bs. b ''item'' = None"
      using Cons.prems Some by auto
    from Cons.IH [OF this] r show ?thesis by simp
  qed
qed

lemma transformResults_bindings:
  "transformResults (Results \<lparr>results = Some \<lparr>bindings = Some bs\<rparr>\<rparr>) = mapBindings bs"
  by (simp add: transformResults_def)

text \<open>
  Claim C10, as stated: every binding without \<open>itemLabel\<close> yields a record named
  \<open>Unknown\<close>. The binding with no field at all has no \<open>itemLabel\<close>, and
  \<open>binding.item.value\<close> throws on it: the callback produces no record, and neither does
  \<open>transformResults\<close> on the result set with that one binding.
\<close>

theorem name_default_counterexample:
  "\<not> (\<forall>b. b ''itemLabel'' = None \<longrightarrow> (\<exists>r. transformBinding b = Inr r \<and> name r = ''Unknown'')) \<and>
   \<not> (\<forall>b. b ''itemLabel'' = None \<longrightarrow>
         (\<exists>rs. transformResults (Results \<lparr>results = Some \<lparr>bindings = Some [b]\<rparr>\<rparr>) = Inr rs \<and>
               name (rs ! 0) = ''Unknown''))"
proof
  show "\<not> (\<forall>b. b ''itemLabel'' = None \<longrightarrow> (\<exists>r. transformBinding b = Inr r \<and> name r = ''Unknown''))"
  proof
    assume "\<forall>b. b ''itemLabel'' = None \<longrightarrow> (\<exists>r. transformBinding b = Inr r \<and> name r = ''Unknown'')"
    then have "\<exists>r. transformBinding Map.empty = Inr r \<and> name r = ''Unknown''"
      by simp
    then show False
      by (simp add: transformBinding_no_item)
  qed
  show "\<not> (\<forall>b. b ''itemLabel'' = None \<longrightarrow>
         (\<exists>rs. transformResults (Results \<lparr>results = Some \<lparr>bindings = Some [b]\<rparr>\<rparr>) = Inr rs \<and>
               name (rs ! 0) = ''Unknown''))"
  proof
    assume "\<forall>b. b ''itemLabel'' = None \<longrightarrow>
         (\<exists>rs. transformResults (Results \<lparr>results = Some \<lparr>bindings = Some [b]\<rparr>\<rparr>) = Inr rs \<and>
               name (rs ! 0) = ''Unknown'')"
    then have "\<exists>rs. transformResults (Results \<lparr>results = Some \<lparr>bindings = Some [Map.empty]\<rparr>\<rparr>) = Inr rs \<and>
               name (rs ! 0) = ''Unknown''"
      by simp
    then show False
      by (simp add: transformResults_def transformBinding_no_item)
  qed
qed

text \<open>
  Claim C10, amended. For every raw result set all of whose bindings carry \<open>item\<close>,
  \<open>transformResults\<close> returns one record per binding, in order, and the record of a binding
  that lacks \<open>itemLabel\<close> has the name \<open>Unknown\<close>. Every record \<open>transformResults\<close> returns has
  a name: the \<open>itemLabel\<close> of its binding, or \<open>Unknown\<close>. A result set with a binding that
  lacks \<open>item\<close> makes \<open>transformResults\<close> throw a TypeError, whatever its other bindings.
\<close>

theorem name_default:
  "((\<forall>b \<in> set bs. b ''item'' \<noteq> None) \<longrightarrow>
      (\<exists>rs. transformResults (Results \<lparr>results = Some \<lparr>bindings = Some bs\<rparr>\<rparr>) = Inr rs \<and>
         length rs = length bs \<and>
         (\<forall>i < length bs. (bs ! i) ''itemLabel'' = None \<longrightarrow> name (rs ! i) = ''Unknown''))) \<and>
   (transformResults (Results \<lparr>results = Some \<lparr>bindings = Some bs\<rparr>\<rparr>) = Inr rs' \<longrightarrow>
      length rs' = length bs \<and>
      (\<forall>i < length bs.
         name (rs' ! i) = (case (bs ! i) ''itemLabel'' of Some v \<Rightarrow> v | None \<Rightarrow> ''Unknown''))) \<and>
   ((\<exists>b \<in> set bs. b ''item'' = None) \<longrightarrow>
      transformResults (Results \<lparr>results = Some \<lparr>bindings = Some bs\<rparr>\<rparr>)
        = Inl (TypeError ''Cannot read properties of undefined (reading 'value')''))"
proof -
  have names: "length rs = length bs \<and>
      (\<forall>i < length bs.
         name (rs ! i) = (case (bs ! i) ''itemLabel'' of Some v \<Rightarrow> v | None \<Rightarrow> ''Unknown''))"
    if "mapBindings bs = Inr rs" for rs
  proof -
    from that have l: "list_all2 (\<lambda>b r. transformBinding b = Inr r) bs rs"
      by (simp add: mapBindings_Inr)
    then have "length rs = length bs"
      by (simp add: list_all2_lengthD)
    moreover have "name (rs ! i) = (case (bs ! i) ''itemLabel'' of Some v \<Rightarrow> v | None \<Rightarrow> ''Unknown'')"
      if "i < length bs" for i
    proof -
      have "transformBinding (bs ! i) = Inr (rs ! i)"
        using list_all2_nthD [OF l that] .
      then show ?thesis by (auto simp: transformBinding_Inr)
    qed
    ultimately show ?thesis by simp
  qed
  have 1: "(\<forall>b \<in> set bs. b ''item'' \<noteq> None) \<longrightarrow>
      (\<exists>rs. transformResults (Results \<lparr>results = Some \<lparr>bindings = Some bs\<rparr>\<rparr>) = Inr rs \<and>
         length rs = length bs \<and>
         (\<forall>i < length bs. (bs ! i) ''itemLabel'' = None \<longrightarrow> name (rs ! i) = ''Unknown''))"
  proof
    assume "\<forall>b \<in> set bs. b ''item'' \<noteq> None"
    from mapBindings_total [OF this] obtain rs where rs: "mapBindings bs = Inr rs" by blast
    from names [OF rs] rs show "\<exists>rs. transformResults (Results \<lparr>results = Some \<lparr>bindings = Some bs\<rparr>\<rparr>) = Inr rs \<and>
         length rs = length bs \<and>
         (\<forall>i < length bs. (bs ! i) ''itemLabel'' = None \<longrightarrow> name (rs ! i) = ''Unknown'')"
      by (auto simp: transformResults_bindings)
  qed
  have 2: "transformResults (Results \<lparr>results = Some \<lparr>bindings = Some bs\<rparr>\<rparr>) = Inr rs' \<longrightarrow>
      length rs' = length bs \<and>
      (\<forall>i < length bs.
         name (rs' ! i) = (case (bs ! i) ''itemLabel'' of Some v \<Rightarrow> v | None \<Rightarrow> ''Unknown''))"
    using names [of rs'] by (simp add: transformResults_bindings)
  have 3: "(\<exists>b \<in> set bs. b ''item'' = None) \<longrightarrow>
      transformResults (Results \<lparr>results = Some \<lparr>bindings = Some bs\<rparr>\<rparr>)
        = Inl (TypeError ''Cannot read properties of undefined (reading 'value')'')"
    using mapBindings_no_item [of bs] by (simp add: transformResults_bindings)
  from 1 2 3 show ?thesis by blast
qed

theorem name_default_witness:
  "transformResults (Results \<lparr>results = Some \<lparr>bindings = Some
       [[''item'' \<mapsto> ''http://www.wikidata.org/entity/Q3''],
        [''item'' \<mapsto> ''http://www.wikidata.org/entity/Q4'', ''itemLabel'' \<mapsto> ''Iskar'']]\<rparr>\<rparr>)
     = Inr [\<lparr>id' = ''Q3'', name = ''Unknown'', type' = ''LAKE'', location = None,
             locatedIn = None, width = None, length' = None, surfaceArea = None, capacity = None,
             inceptionDate = None, wikidataUrl = ''https://www.wikidata.org/wiki/Q3'',
             description = None\<rparr>,
            \<lparr>id' = ''Q4'', name = ''Iskar'', type' = ''LAKE'', location = None,
             locatedIn = None, width = None, length' = None, surfaceArea = None, capacity = None,
             inceptionDate = None, wikidataUrl = ''https://www.wikidata.org/wiki/Q4'',
             description = None\<rparr>] \<and>
   (\<exists>rs. transformResults (Results \<lparr>results = Some \<lparr>bindings = Some
       [[''item'' \<mapsto> ''http://www.wikidata.org/entity/Q3''],
        [''item'' \<mapsto> ''http://www.wikidata.org/entity/Q4'', ''itemLabel'' \<mapsto> ''Iskar'']]\<rparr>\<rparr>) = Inr rs \<and>
      length rs = 2 \<and> name (rs ! 0) = ''Unknown'') \<and>
   transformResults (Results \<lparr>results = Some \<lparr>bindings = Some
       [[''item'' \<mapsto> ''http://www.wikidata.org/entity/Q3''], Map.empty]\<rparr>\<rparr>)
     = Inl (TypeError ''Cannot read properties of undefined (reading 'value')'')"
proof -
  let ?b3 = "[''item'' \<mapsto> ''http://www.wikidata.org/entity/Q3'']"
  let ?b4 = "[''item'' \<mapsto> ''http://www.wikidata.org/entity/Q4'', ''itemLabel'' \<mapsto> ''Iskar'']"
  let ?r3 = "\<lparr>id' = ''Q3'', name = ''Unknown'', type' = ''LAKE'', location = None,
             locatedIn = None, width = None, length' = None, surfaceArea = None, capacity = None,
             inceptionDate = None, wikidataUrl = ''https://www.wikidata.org/wiki/Q3'',
             description = None\<rparr>"
  let ?r4 = "\<lparr>id' = ''Q4'', name = ''Iskar'', type' = ''LAKE'', location = None,
             locatedIn = None, width = None, length' = None, surfaceArea = None, capacity = None,
             inceptionDate = None, wikidataUrl = ''https://www.wikidata.org/wiki/Q4'',
             description = None\<rparr>"
  have t3: "transformBinding ?b3 = Inr ?r3"
    by (simp add: transformBinding_def parseCoord_def pop_def inferType_def
        mkLocation_def truthy_def Let_def)
  have t4: "transformBinding ?b4 = Inr ?r4"
    by (simp add: transformBinding_def parseCoord_def pop_def inferType_def
        mkLocation_def truthy_def Let_def)
  have a: "transformResults (Results \<lparr>results = Some \<lparr>bindings = Some [?b3, ?b4]\<rparr>\<rparr>) = Inr [?r3, ?r4]"
    by (simp add: transformResults_def t3 t4)
  have items: "\<forall>b \<in> set [?b3, ?b4]. b ''item'' \<noteq> None"
    by simp
  have noitem: "\<exists>b \<in> set [?b3, Map.empty]. b ''item'' = None"
    by simp
  from name_default [of "[?b3, ?b4]", THEN conjunct1, THEN mp, OF items]
  have b: "\<exists>rs. transformResults (Results \<lparr>results = Some \<lparr>bindings = Some [?b3, ?b4]\<rparr>\<rparr>) = Inr rs \<and>
      length rs = 2 \<and> name (rs ! 0) = ''Unknown''"
    by auto
  from name_default [of "[?b3, Map.empty]", THEN conjunct2, THEN conjunct2, THEN mp, OF noitem]
  have c: "transformResults (Results \<lparr>results = Some \<lparr>bindings = Some [?b3, Map.empty]\<rparr>\<rparr>)
     = Inl (TypeError ''Cannot read properties of undefined (reading 'value')'')" .
  from a b c show ?thesis by blast
qed

section \<open>Properties of the query builder\<close>

text \<open>A bound that is set and not zero puts its clause, the existence pattern and the
  comparison, into the query text; an unset bound contributes nothing.\<close>

lemma capacityFilter_nonzero:
  "n \<noteq> 0 \<Longrightarrow> capacityFilter (Some n) = capacityFilter1 @ intToString n @ capacityFilter2"
  by (simp add: capacityFilter_def)

lemma surfaceAreaFilter_nonzero:
  "n \<noteq> 0 \<Longrightarrow>
     surfaceAreaFilter (Some n) = surfaceAreaFilter1 @ intToString n @ surfaceAreaFilter2"
  by (simp add: surfaceAreaFilter_def)

lemma filters_unset: "capacityFilter None = []" "surfaceAreaFilter None = []"
  by (simp_all add: capacityFilter_def surfaceAreaFilter_def)

lemma capacityFilter_in_query:
  "sublist (capacityFilter (minCapacity p)) (buildWaterFeaturesQuery p)"
  unfolding buildWaterFeaturesQuery_def
  by (metis append.assoc sublist_appendI)

lemma surfaceAreaFilter_in_query:
  "sublist (surfaceAreaFilter (minSurfaceArea p)) (buildWaterFeaturesQuery p)"
  unfolding buildWaterFeaturesQuery_def
  by (metis append.assoc sublist_appendI)

text \<open>The fixed text of the template has no comparison sign.\<close>

lemma no_gt_template:
  "CHR ''>'' \<notin> set querySelect" "CHR ''>'' \<notin> set queryPatterns" "CHR ''>'' \<notin> set queryGap"
  "CHR ''>'' \<notin> set queryGroupOrder" "CHR ''>'' \<notin> set queryLimitClause"
  "CHR ''>'' \<notin> set queryOffsetClause" "CHR ''>'' \<notin> set queryEnd"
  by (simp_all add: querySelect_def queryPatterns_def queryGap_def queryGroupOrder_def
      queryLimitClause_def queryOffsetClause_def queryEnd_def)

lemma no_gt_typeFilter: "CHR ''>'' \<notin> set (typeFilter None)"
  by (simp add: typeFilter_def typeFilterAll1_def typeFilterAll2_def waterFeatureTypes_def
      typeMapping_def lookupText_def getProperty_def)

lemma intToString_500: "intToString 500 = ''500''"
  by (simp add: intToString_def decimalDigits.simps digitChar_def char_of_def)

lemma intToString_0: "intToString 0 = ''0''"
  by (simp add: intToString_def decimalDigits.simps digitChar_def char_of_def)

lemma sortField_default: "sortField None = ''?name''"
  by (simp add: sortField_def sortMapping_def getProperty_def)

lemma sortField_unknown: "sortField (Some ''depth'') = ''?name''"
  by (simp add: sortField_def sortMapping_def getProperty_def objectPrototype_def lookupText_def)

lemma sortField_inherited: "sortField (Some ''constructor'') = nativeFunction ''Object''"
  by (simp add: sortField_def sortMapping_def getProperty_def objectPrototype_def)

text \<open>
  Claim C3, at the filter specifications \<open>{minCapacity: 0}\<close> and \<open>{minSurfaceArea: 0}\<close>:
  \<open>if (minCapacity)\<close> and \<open>if (minSurfaceArea)\<close> are false for 0, the filter text is
  empty, and the query is the query of the empty specification; it has no \<open>>\<close> sign,
  so no comparison \<open>>= 0\<close>, and no existence pattern outside \<open>OPTIONAL\<close>.
\<close>

theorem bound_filter_lost_at_zero:
  "capacityFilter (Some 0) = [] \<and>
   surfaceAreaFilter (Some 0) = [] \<and>
   buildWaterFeaturesQuery (noParams\<lparr>minCapacity := Some 0\<rparr>) = buildWaterFeaturesQuery noParams \<and>
   buildWaterFeaturesQuery (noParams\<lparr>minSurfaceArea := Some 0\<rparr>) = buildWaterFeaturesQuery noParams \<and>
   CHR ''>'' \<notin> set (buildWaterFeaturesQuery (noParams\<lparr>minCapacity := Some 0\<rparr>)) \<and>
   CHR ''>'' \<notin> set (buildWaterFeaturesQuery (noParams\<lparr>minSurfaceArea := Some 0\<rparr>))"
  by (simp add: capacityFilter_def surfaceAreaFilter_def regionFilter_def
      buildWaterFeaturesQuery_def noParams_def no_gt_template no_gt_typeFilter
      intToString_500 intToString_0 sortField_default queryLimit_def)

section \<open>Properties of the retrieval orchestrator\<close>

text \<open>A fingerprint is a decimal numeral: it is never one of the keys \<open>ALL_...\<close> and
  \<open>FEATURE_...\<close>.\<close>

lemma digitChar_digit: "0 \<le> d \<Longrightarrow> d < 10 \<Longrightarrow> digitChar d \<in> set ''0123456789''"
proof -
  assume "0 \<le> d" "d < 10"
  then have "d = 0 \<or> d = 1 \<or> d = 2 \<or> d = 3 \<or> d = 4 \<or> d = 5 \<or> d = 6 \<or> d = 7 \<or> d = 8 \<or> d = 9"
    by arith
  then show ?thesis
    by (elim disjE) (simp_all add: digitChar_def char_of_def)
qed

lemma decimalDigits_digits: "0 \<le> n \<Longrightarrow> set (decimalDigits n) \<subseteq> set ''0123456789''"
proof (induction n rule: decimalDigits.induct)
  case (1 n)
  show ?case
  proof (cases "n < 10")
    case True
    then show ?thesis using 1(2) digitChar_digit [of n]
      by (subst decimalDigits.simps) simp
  next
    case False
    have "set (decimalDigits (n div 10)) \<subseteq> set ''0123456789''"
      using 1 False by simp
    moreover have "digitChar (n mod 10) \<in> set ''0123456789''"
      by (rule digitChar_digit) simp_all
    ultimately show ?thesis using False
      by (subst decimalDigits.simps) simp
  qed
qed

lemma intToString_chars: "set (intToString i) \<subseteq> set ''-0123456789''"
  using decimalDigits_digits [of i] decimalDigits_digits [of "- i"]
  by (auto simp: intToString_def)

lemma hashString_not_ALL: "hashString m s \<noteq> ''ALL_'' @ ty"
proof
  assume "hashString m s = ''ALL_'' @ ty"
  then have "CHR ''A'' \<in> set (intToString (fold hashStep s 0))" by (simp add: hashString_def)
  then show False using intToString_chars by fastforce
qed

lemma hashString_not_FEATURE: "hashString m s \<noteq> ''FEATURE_'' @ ident"
proof
  assume "hashString m s = ''FEATURE_'' @ ident"
  then have "CHR ''F'' \<in> set (intToString (fold hashStep s 0))" by (simp add: hashString_def)
  then show False using intToString_chars by fastforce
qed

lemma hashString_indep: "hashString m s = hashString m' s"
  by (simp add: hashString_def)

text \<open>Effects of the cache operations on the world.\<close>

lemma cacheGet_effect:
  assumes "cacheGet e key w = (r, w')"
  shows "requests w' = requests w" "errorLog w' = errorLog w"
    "defaultTTL (cm w') = defaultTTL (cm w)"
    "k \<noteq> key \<Longrightarrow> cached w' k = cached w k"
    "cached w' k = Some en \<Longrightarrow> cached w k = Some en"
    "ticks w \<le> ticks w'" "ticks w' \<le> Suc (ticks w)"
  using assms
  by (auto simp: cacheGet_def get_cm_def delete_conv' split: option.splits if_splits)

lemma cacheGet_cases:
  "cacheGet e key w =
     (case cached w key of
        None \<Rightarrow> (None, w)
      | Some en \<Rightarrow>
          if expired (clock e (ticks w)) (expiryTime en)
          then (None, w\<lparr>cm := (cm w)\<lparr>cache := AList.delete key (cache (cm w))\<rparr>, ticks := Suc (ticks w)\<rparr>)
          else (Some (data en), w\<lparr>ticks := Suc (ticks w)\<rparr>))"
  by (simp add: cacheGet_def get_cm_def split: option.splits)

lemma cacheSet_effect:
  assumes "cacheSet e key d ttl w = (r, w')"
  shows "requests w' = requests w" "errorLog w' = errorLog w"
    "defaultTTL (cm w') = defaultTTL (cm w)"
    "k \<noteq> key \<Longrightarrow> cached w' k = cached w k"
    "cached w' key = Some \<lparr>data = d, expiryTime = addNumber (clock e (ticks w))
         (case ttl of None \<Rightarrow> defaultTTL (cm w) | Some t \<Rightarrow> Some t)\<rparr>"
    "ticks w' = Suc (ticks w)" "r = d"
  using assms
  by (auto simp: cacheSet_def set_cm_def Let_def update_conv')

lemma query_effect:
  assumes "query e q w = (r, w')"
  shows "errorLog w' = errorLog w"
    "defaultTTL (cm w') = defaultTTL (cm w)"
    "k \<noteq> hashString (cm w) q \<Longrightarrow> cached w' k = cached w k"
    "requests w' = requests w \<or> requests w' = requests w @ [q]"
    "ticks w \<le> ticks w'"
  using assms
  by (auto simp: query_def cacheGet_cases cacheSet_def set_cm_def Let_def update_conv' delete_conv'
      hashString_def split: option.splits if_splits response.splits prod.splits)



lemma find_id: "find (\<lambda>f. id' f = ident) fs = Some f \<Longrightarrow> id' f = ident \<and> f \<in> set fs"
  by (auto simp: find_Some_iff)

lemma find_id_None: "find (\<lambda>f. id' f = ident) fs = None \<Longrightarrow> f \<in> set fs \<Longrightarrow> id' f \<noteq> ident"
  by (auto simp: find_None_iff)


lemma scan_Cons:
  assumes "scanTypeCaches e ident (ty # tys) w = (r, w')"
  obtains (stop) g where "cacheGet e (''ALL_'' @ ty) w = (g, w')"
  | (rec) g w1 where "cacheGet e (''ALL_'' @ ty) w = (g, w1)" "scanTypeCaches e ident tys w1 = (r, w')"
proof -
  obtain g w1 where g: "cacheGet e (''ALL_'' @ ty) w = (g, w1)"
    by (cases "cacheGet e (''ALL_'' @ ty) w")
  have "w' = w1 \<or> scanTypeCaches e ident tys w1 = (r, w')"
    using assms g by (auto simp: scanTypeCaches.simps(2) split: option.splits jsdata.splits)
  then show thesis
    using g stop rec by blast
qed

lemma scan_requests:
  "scanTypeCaches e ident tys w = (r, w') \<Longrightarrow> requests w' = requests w"
proof (induction tys arbitrary: w)
  case Nil
  then show ?case by simp
next
  case (Cons ty tys)
  from Cons.prems show ?case
  proof (cases rule: scan_Cons)
    case (stop g)
    then show ?thesis using cacheGet_effect(1) [OF stop] by simp
  next
    case (rec g w1)
    then show ?thesis using Cons.IH [OF rec(2)] cacheGet_effect(1) [OF rec(1)] by simp
  qed
qed

lemma scan_errorLog:
  "scanTypeCaches e ident tys w = (r, w') \<Longrightarrow> errorLog w' = errorLog w"
proof (induction tys arbitrary: w)
  case Nil
  then show ?case by simp
next
  case (Cons ty tys)
  from Cons.prems show ?case
  proof (cases rule: scan_Cons)
    case (stop g)
    then show ?thesis using cacheGet_effect(2) [OF stop] by simp
  next
    case (rec g w1)
    then show ?thesis using Cons.IH [OF rec(2)] cacheGet_effect(2) [OF rec(1)] by simp
  qed
qed

lemma scan_defaultTTL:
  "scanTypeCaches e ident tys w = (r, w') \<Longrightarrow> defaultTTL (cm w') = defaultTTL (cm w)"
proof (induction tys arbitrary: w)
  case Nil
  then show ?case by simp
next
  case (Cons ty tys)
  from Cons.prems show ?case
  proof (cases rule: scan_Cons)
    case (stop g)
    then show ?thesis using cacheGet_effect(3) [OF stop] by simp
  next
    case (rec g w1)
    then show ?thesis using Cons.IH [OF rec(2)] cacheGet_effect(3) [OF rec(1)] by simp
  qed
qed

lemma scan_cached_other:
  "scanTypeCaches e ident tys w = (r, w') \<Longrightarrow> \<forall>ty \<in> set tys. k \<noteq> ''ALL_'' @ ty \<Longrightarrow>
     cached w' k = cached w k"
proof (induction tys arbitrary: w)
  case Nil
  then show ?case by simp
next
  case (Cons ty tys)
  have k1: "k \<noteq> ''ALL_'' @ ty"
    using Cons.prems(2) by (simp only: list.set_intros ball_simps list.set) blast
  have k2: "\<forall>t \<in> set tys. k \<noteq> ''ALL_'' @ t"
    using Cons.prems(2) by (simp only: list.set) blast
  from Cons.prems(1) show ?case
  proof (cases rule: scan_Cons)
    case (stop g)
    then show ?thesis using cacheGet_effect(4) [OF stop k1] by simp
  next
    case (rec g w1)
    have "cached w1 k = cached w k"
      using cacheGet_effect(4) [OF rec(1) k1] .
    then show ?thesis using Cons.IH [OF rec(2) k2] by simp
  qed
qed

lemma scan_cached_mono:
  "scanTypeCaches e ident tys w = (r, w') \<Longrightarrow> cached w' k = Some en \<Longrightarrow> cached w k = Some en"
proof (induction tys arbitrary: w)
  case Nil
  then show ?case by simp
next
  case (Cons ty tys)
  from Cons.prems(1) show ?case
  proof (cases rule: scan_Cons)
    case (stop g)
    show ?thesis using cacheGet_effect(5) [OF stop Cons.prems(2)] .
  next
    case (rec g w1)
    have "cached w1 k = Some en"
      using Cons.IH [OF rec(2) Cons.prems(2)] .
    then show ?thesis using cacheGet_effect(5) [OF rec(1)] by blast
  qed
qed


lemma scan_Cons_unfold:
  "scanTypeCaches e ident (ty # tys) w =
     (case cached w (''ALL_'' @ ty) of
        None \<Rightarrow> scanTypeCaches e ident tys w
      | Some en \<Rightarrow>
          if expired (clock e (ticks w)) (expiryTime en)
          then scanTypeCaches e ident tys
                 (w\<lparr>cm := (cm w)\<lparr>cache := AList.delete (''ALL_'' @ ty) (cache (cm w))\<rparr>,
                    ticks := Suc (ticks w)\<rparr>)
          else (case data en of
                  FeatureList features \<Rightarrow>
                    (case find (\<lambda>f. id' f = ident) features of
                       Some feature \<Rightarrow> (Inr (Some feature), w\<lparr>ticks := Suc (ticks w)\<rparr>)
                     | None \<Rightarrow> scanTypeCaches e ident tys (w\<lparr>ticks := Suc (ticks w)\<rparr>))
                | _ \<Rightarrow> (Inl (TypeError ''features.find is not a function''),
                         w\<lparr>ticks := Suc (ticks w)\<rparr>)))"
  by (simp add: scanTypeCaches.simps(2) cacheGet_cases split: option.splits jsdata.splits)

text \<open>The operations keep the type caches typed, from the empty cache on.\<close>

lemma typedCaches_new:
  "typedCaches \<lparr>cm = newCacheManager ttl, ticks = n, requests = rs, errorLog = es\<rparr>"
  by (simp add: typedCaches_def newCacheManager_def)

lemma typedCaches_query:
  assumes "typedCaches w" "query e q w = (r, w')"
  shows "typedCaches w'"
proof -
  have "cached w' (''ALL_'' @ t) = cached w (''ALL_'' @ t)" for t
  proof -
    have "''ALL_'' @ t \<noteq> hashString (cm w) q"
      using hashString_not_ALL by metis
    then show ?thesis by (rule query_effect(3) [OF assms(2)])
  qed
  then show ?thesis using assms(1) by (simp add: typedCaches_def)
qed

lemma typedCaches_scan:
  assumes "typedCaches w" "scanTypeCaches e ident tys w = (r, w')"
  shows "typedCaches w'"
  using assms(1) scan_cached_mono [OF assms(2)]
  unfolding typedCaches_def by blast

lemma typedCaches_cacheSet_FEATURE:
  assumes "typedCaches w" "cacheSet e (''FEATURE_'' @ ident) d ttl w = (r, w')"
  shows "typedCaches w'"
proof -
  have "cached w' (''ALL_'' @ t) = cached w (''ALL_'' @ t)" for t
    by (rule cacheSet_effect(4) [OF assms(2)]) simp
  then show ?thesis using assms(1) by (simp add: typedCaches_def)
qed

lemma typedCaches_getWaterFeatureById:
  assumes "typedCaches w" "getWaterFeatureById e ident w = (r, w')"
  shows "typedCaches w'"
proof -
  obtain r1 w1 where s: "scanTypeCaches e ident waterFeatureTypes w = (r1, w1)"
    by (cases "scanTypeCaches e ident waterFeatureTypes w")
  have t1: "typedCaches w1" by (rule typedCaches_scan [OF assms(1) s])
  obtain r2 w2 where q: "query e (buildWaterFeatureByIdQuery ident) w1 = (r2, w2)"
    by (cases "query e (buildWaterFeatureByIdQuery ident) w1")
  have t2: "typedCaches w2" by (rule typedCaches_query [OF t1 q])
  show ?thesis
    using assms(2) s q t1 t2 typedCaches_cacheSet_FEATURE [OF t2]
    by (auto simp: getWaterFeatureById_def split: sum.splits option.splits list.splits prod.splits)
qed

lemma typedCaches_preloadType:
  assumes "typedCaches w" "preloadType e ty w = (r, w')"
  shows "typedCaches w'"
proof -
  let ?q = "buildWaterFeaturesQuery (noParams\<lparr>typeParam := Some ty, limit := Some queryLimit\<rparr>)"
  obtain r1 w1 where q: "query e ?q w = (r1, w1)"
    by (cases "query e ?q w")
  have t1: "typedCaches w1" by (rule typedCaches_query [OF assms(1) q])
  have t2: "typedCaches w2"
    if "cacheSet e (''ALL_'' @ ty) (FeatureList fs) ttl w1 = (r2, w2)" for fs ttl r2 w2
    using t1 that
    by (auto simp: typedCaches_def cacheSet_def set_cm_def Let_def update_conv' split: if_splits)
  show ?thesis
    using assms(2) q t1 t2
    by (auto simp: preloadType_def Let_def split: sum.splits prod.splits)
qed

lemma typedCaches_preloadLoop:
  "typedCaches w \<Longrightarrow> typedCaches (snd (preloadLoop e tys w))"
proof (induction tys arbitrary: w)
  case Nil
  then show ?case by simp
next
  case (Cons t tys)
  obtain r w1 where p: "preloadType e t w = (r, w1)"
    by (cases "preloadType e t w")
  have t1: "typedCaches w1" by (rule typedCaches_preloadType [OF Cons.prems p])
  have t2: "typedCaches (w1\<lparr>errorLog := l\<rparr>)" for l
    using t1 by (simp add: typedCaches_def)
  show ?case
    using p Cons.IH [OF t1] Cons.IH [OF t2] by (auto split: sum.splits)
qed

lemma typedCaches_preloadCache: "typedCaches w \<Longrightarrow> typedCaches (snd (preloadCache e w))"
  by (simp add: preloadCache_def typedCaches_preloadLoop)

lemma scan_nothing_cached:
  "\<forall>t \<in> set tys. cached w (''ALL_'' @ t) = None \<Longrightarrow> scanTypeCaches e ident tys w = (Inr None, w)"
  by (induction tys) (simp_all add: scan_Cons_unfold)

text \<open>The scan of the type lists, in terms of what each type serves.\<close>

lemma distinct_waterFeatureTypes: "distinct waterFeatureTypes"
  by (simp add: waterFeatureTypes_def)

lemma find_firstWithId: "(find (\<lambda>g. id' g = ident) fs = Some f) = firstWithId ident fs f"
  unfolding firstWithId_def find_Some_iff by auto

lemma find_None_firstWithId: "(find (\<lambda>g. id' g = ident) fs = None) = (\<forall>f. \<not> firstWithId ident fs f)"
  using find_firstWithId [of ident fs]
  by (metis not_Some_eq)

lemma readingOf_head: "readingOf w (t # ts) t = ticks w"
  by (simp add: readingOf_def)

lemma scan_step_serves:
  assumes "serves e w (t # ts) ident t f"
  shows "scanTypeCaches e ident (t # ts) w = (Inr (Some f), w\<lparr>ticks := Suc (ticks w)\<rparr>)"
proof -
  from assms obtain fs where l: "liveData e (ticks w) w (''ALL_'' @ t) = Some (FeatureList fs)"
    and f: "firstWithId ident fs f"
    by (auto simp: serves_def readingOf_head)
  from l obtain en where en: "cached w (''ALL_'' @ t) = Some en"
      "\<not> expired (clock e (ticks w)) (expiryTime en)" "data en = FeatureList fs"
    by (auto simp: liveData_def split: option.splits if_splits)
  have "find (\<lambda>g. id' g = ident) fs = Some f"
    using f by (simp add: find_firstWithId)
  with en show ?thesis
    by (simp add: scan_Cons_unfold)
qed

lemma scan_step_skip:
  assumes no: "\<forall>g. \<not> serves e w (t # ts) ident t g"
    and wt: "\<forall>en. cached w (''ALL_'' @ t) = Some en \<longrightarrow> (\<exists>fs. data en = FeatureList fs)"
  shows "\<exists>w1. scanTypeCaches e ident (t # ts) w = scanTypeCaches e ident ts w1 \<and>
           (\<forall>k. k \<noteq> ''ALL_'' @ t \<longrightarrow> cached w1 k = cached w k) \<and>
           ticks w1 = ticks w + (if present w t then 1 else 0)"
proof (cases "cached w (''ALL_'' @ t)")
  case None
  then show ?thesis
    by (intro exI [of _ w]) (simp add: scan_Cons_unfold present_def)
next
  case (Some en)
  then obtain fs where fs: "data en = FeatureList fs" using wt by auto
  show ?thesis
  proof (cases "expired (clock e (ticks w)) (expiryTime en)")
    case True
    let ?w1 = "w\<lparr>cm := (cm w)\<lparr>cache := AList.delete (''ALL_'' @ t) (cache (cm w))\<rparr>,
                  ticks := Suc (ticks w)\<rparr>"
    show ?thesis
      using Some True
      by (intro exI [of _ ?w1]) (simp add: scan_Cons_unfold present_def delete_conv')
  next
    case False
    have "liveData e (ticks w) w (''ALL_'' @ t) = Some (FeatureList fs)"
      using Some False fs by (simp add: liveData_def)
    then have "\<forall>g. \<not> firstWithId ident fs g"
      using no by (auto simp: serves_def readingOf_head)
    then have "find (\<lambda>g. id' g = ident) fs = None"
      by (simp add: find_None_firstWithId)
    then show ?thesis
      using Some False fs
      by (intro exI [of _ "w\<lparr>ticks := Suc (ticks w)\<rparr>"]) (simp add: scan_Cons_unfold present_def)
  qed
qed

lemma serves_step:
  assumes "t \<notin> set ts" "ty \<in> set ts"
    and c: "\<forall>k. k \<noteq> ''ALL_'' @ t \<longrightarrow> cached w1 k = cached w k"
    and n: "ticks w1 = ticks w + (if present w t then 1 else 0)"
  shows "serves e w1 ts ident ty g = serves e w (t # ts) ident ty g"
proof -
  have ne: "t \<noteq> ty" using assms(1,2) by auto
  have same: "cached w1 (''ALL_'' @ t') = cached w (''ALL_'' @ t')" if "t' \<in> set ts" for t'
  proof -
    have "t' \<noteq> t" using that assms(1) by auto
    then have "''ALL_'' @ t' \<noteq> ''ALL_'' @ t" by simp
    with c show ?thesis by blast
  qed
  have "present w1 x = present w x" if "x \<in> set (takeWhile (\<lambda>t. t \<noteq> ty) ts)" for x
    using same [of x] set_takeWhileD [OF that] unfolding present_def by simp
  then have "filter (present w1) (takeWhile (\<lambda>t. t \<noteq> ty) ts) = filter (present w) (takeWhile (\<lambda>t. t \<noteq> ty) ts)"
    by (intro filter_cong) simp_all
  then have r: "readingOf w1 ts ty = readingOf w (t # ts) ty"
    using ne n by (simp add: readingOf_def)
  have "liveData e n' w1 (''ALL_'' @ ty) = liveData e n' w (''ALL_'' @ ty)" for n'
    using same [OF assms(2)] by (simp add: liveData_def)
  with r show ?thesis by (simp add: serves_def)
qed


lemma other_type_key:
  assumes "t \<notin> set ts" "t' \<in> set ts"
    and "\<forall>k. k \<noteq> ''ALL_'' @ t \<longrightarrow> cached w1 k = cached w k"
  shows "cached w1 (''ALL_'' @ t') = cached w (''ALL_'' @ t')"
proof -
  have "t' \<noteq> t" using assms(1,2) by auto
  then have "''ALL_'' @ t' \<noteq> ''ALL_'' @ t" by simp
  with assms(3) show ?thesis by blast
qed

lemma scan_miss:
  assumes "distinct tys"
    and "\<forall>t \<in> set tys. \<forall>en. cached w (''ALL_'' @ t) = Some en \<longrightarrow> (\<exists>fs. data en = FeatureList fs)"
    and "\<forall>t \<in> set tys. \<forall>g. \<not> serves e w tys ident t g"
  shows "\<exists>w1. scanTypeCaches e ident tys w = (Inr None, w1) \<and>
           ticks w1 = ticks w + length (filter (present w) tys)"
  using assms
proof (induction tys arbitrary: w)
  case Nil
  then show ?case by simp
next
  case (Cons t ts)
  have nin: "t \<notin> set ts" and d: "distinct ts" using Cons.prems(1) by simp_all
  have no_t: "\<forall>g. \<not> serves e w (t # ts) ident t g" using Cons.prems(3) by simp
  have wt_t: "\<forall>en. cached w (''ALL_'' @ t) = Some en \<longrightarrow> (\<exists>fs. data en = FeatureList fs)"
    using Cons.prems(2) by simp
  from scan_step_skip [OF no_t wt_t] obtain w1
    where step: "scanTypeCaches e ident (t # ts) w = scanTypeCaches e ident ts w1"
      and c: "\<forall>k. k \<noteq> ''ALL_'' @ t \<longrightarrow> cached w1 k = cached w k"
      and n: "ticks w1 = ticks w + (if present w t then 1 else 0)"
    by blast
  have same: "cached w1 (''ALL_'' @ t') = cached w (''ALL_'' @ t')" if "t' \<in> set ts" for t'
    by (rule other_type_key [OF nin that c])
  have wt1: "\<forall>t' \<in> set ts. \<forall>en. cached w1 (''ALL_'' @ t') = Some en \<longrightarrow> (\<exists>fs. data en = FeatureList fs)"
  proof (intro ballI allI impI)
    fix t' en assume t': "t' \<in> set ts" and "cached w1 (''ALL_'' @ t') = Some en"
    then have "cached w (''ALL_'' @ t') = Some en" using same by simp
    then show "\<exists>fs. data en = FeatureList fs" using Cons.prems(2) t' by auto
  qed
  have no1: "\<forall>t' \<in> set ts. \<forall>g. \<not> serves e w1 ts ident t' g"
  proof (intro ballI allI)
    fix t' g assume t': "t' \<in> set ts"
    have "serves e w1 ts ident t' g = serves e w (t # ts) ident t' g"
      by (rule serves_step [OF nin t' c n])
    then show "\<not> serves e w1 ts ident t' g" using Cons.prems(3) t' by simp
  qed
  from Cons.IH [OF d wt1 no1] obtain w2
    where w2: "scanTypeCaches e ident ts w1 = (Inr None, w2)"
      "ticks w2 = ticks w1 + length (filter (present w1) ts)"
    by blast
  have "present w1 x = present w x" if "x \<in> set ts" for x
    using same [OF that] by (simp add: present_def)
  then have "filter (present w1) ts = filter (present w) ts"
    by (intro filter_cong) simp_all
  then have "ticks w2 = ticks w + length (filter (present w) (t # ts))"
    using w2(2) n by simp
  with step w2(1) show ?case by simp
qed

lemma scan_first:
  assumes "distinct tys"
    and "\<forall>t \<in> set tys. \<forall>en. cached w (''ALL_'' @ t) = Some en \<longrightarrow> (\<exists>fs. data en = FeatureList fs)"
    and "ty \<in> set tys" "serves e w tys ident ty f"
    and "\<forall>t \<in> set (takeWhile (\<lambda>t. t \<noteq> ty) tys). \<forall>g. \<not> serves e w tys ident t g"
  shows "\<exists>w'. scanTypeCaches e ident tys w = (Inr (Some f), w')"
  using assms
proof (induction tys arbitrary: w)
  case Nil
  then show ?case by simp
next
  case (Cons t ts)
  show ?case
  proof (cases "t = ty")
    case True
    then show ?thesis using scan_step_serves [of e w ty ts ident f] Cons.prems(4) by simp
  next
    case False
    have nin: "t \<notin> set ts" and d: "distinct ts" using Cons.prems(1) by simp_all
    have ty: "ty \<in> set ts" using Cons.prems(3) False by simp
    have no_t: "\<forall>g. \<not> serves e w (t # ts) ident t g" using Cons.prems(5) False by simp
    have wt_t: "\<forall>en. cached w (''ALL_'' @ t) = Some en \<longrightarrow> (\<exists>fs. data en = FeatureList fs)"
      using Cons.prems(2) by simp
    from scan_step_skip [OF no_t wt_t] obtain w1
      where step: "scanTypeCaches e ident (t # ts) w = scanTypeCaches e ident ts w1"
        and c: "\<forall>k. k \<noteq> ''ALL_'' @ t \<longrightarrow> cached w1 k = cached w k"
        and n: "ticks w1 = ticks w + (if present w t then 1 else 0)"
      by blast
    have same: "cached w1 (''ALL_'' @ t') = cached w (''ALL_'' @ t')" if "t' \<in> set ts" for t'
      by (rule other_type_key [OF nin that c])
    have wt1: "\<forall>t' \<in> set ts. \<forall>en. cached w1 (''ALL_'' @ t') = Some en \<longrightarrow> (\<exists>fs. data en = FeatureList fs)"
    proof (intro ballI allI impI)
      fix t' en assume t': "t' \<in> set ts" and "cached w1 (''ALL_'' @ t') = Some en"
      then have "cached w (''ALL_'' @ t') = Some en" using same by simp
      then show "\<exists>fs. data en = FeatureList fs" using Cons.prems(2) t' by auto
    qed
    have s1: "serves e w1 ts ident ty f"
      using serves_step [OF nin ty c n, of e ident f] Cons.prems(4) by simp
    have no1: "\<forall>t' \<in> set (takeWhile (\<lambda>t. t \<noteq> ty) ts). \<forall>g. \<not> serves e w1 ts ident t' g"
    proof (intro ballI allI)
      fix t' g assume t': "t' \<in> set (takeWhile (\<lambda>t. t \<noteq> ty) ts)"
      then have in_ts: "t' \<in> set ts" by (rule set_takeWhileD [THEN conjunct1])
      have "t' \<in> set (takeWhile (\<lambda>t. t \<noteq> ty) (t # ts))" using t' False by simp
      then have "\<not> serves e w (t # ts) ident t' g" using Cons.prems(5) by blast
      then show "\<not> serves e w1 ts ident t' g"
        using serves_step [OF nin in_ts c n, of e ident g] by simp
    qed
    from Cons.IH [OF d wt1 ty s1 no1] step show ?thesis by simp
  qed
qed

text \<open>The query step: a live fingerprint entry answers, otherwise the transport is asked
  and its answer stored. The text of the query by identifier.\<close>

lemma query_cached:
  assumes "liveData e (ticks w) w (hashString (cm w) q) = Some res"
  shows "query e q w = (Inr res, w\<lparr>ticks := Suc (ticks w)\<rparr>)"
  using assms
  by (auto simp: query_def cacheGet_cases liveData_def split: option.splits if_splits)

lemma query_fetch_Ok:
  assumes "liveData e (ticks w) w (hashString (cm w) q) = None"
    and "fetch e (length (requests w)) q = Ok raw"
  shows "\<exists>w2. query e q w = (Inr (Results raw), w2) \<and>
           requests w2 = requests w @ [q] \<and>
           ticks w2 = Suc (ticks w + (if cached w (hashString (cm w) q) = None then 0 else 1)) \<and>
           cached w2 (hashString (cm w) q)
             = Some \<lparr>data = Results raw,
                     expiryTime = addNumber
                       (clock e (ticks w + (if cached w (hashString (cm w) q) = None then 0 else 1)))
                       (defaultTTL (cm w))\<rparr> \<and>
           (\<forall>k. k \<noteq> hashString (cm w) q \<longrightarrow> cached w2 k = cached w k) \<and>
           defaultTTL (cm w2) = defaultTTL (cm w)"
  using assms
  by (auto simp: query_def cacheGet_cases liveData_def cacheSet_def set_cm_def Let_def
      update_conv' delete_conv' hashString_def split: option.splits if_splits)

lemma byId_text:
  "sublist (''BIND(wd:'' @ ident @ '' AS ?item)'') (buildWaterFeatureByIdQuery ident)"
  "sublist ''LIMIT 1'' (buildWaterFeatureByIdQuery ident)"
proof -
  have "suffix ''BIND(wd:'' byIdQuery1"
    by (simp add: byIdQuery1_def suffix_to_prefix)
  then obtain a where a: "byIdQuery1 = a @ ''BIND(wd:''"
    unfolding suffix_def by blast
  have "prefix '' AS ?item)'' byIdQuery2"
    by (simp add: byIdQuery2_def)
  then obtain b where b: "byIdQuery2 = '' AS ?item)'' @ b"
    unfolding prefix_def by blast
  have "buildWaterFeatureByIdQuery ident = a @ (''BIND(wd:'' @ ident @ '' AS ?item)'') @ b"
    unfolding buildWaterFeatureByIdQuery_def a b by simp
  then show "sublist (''BIND(wd:'' @ ident @ '' AS ?item)'') (buildWaterFeatureByIdQuery ident)"
    unfolding sublist_def by blast
  have "includes' byIdQuery2 ''LIMIT 1''"
    by (simp add: byIdQuery2_def)
  then have "sublist ''LIMIT 1'' byIdQuery2"
    by (simp only: includes'_sublist)
  then obtain c d where "byIdQuery2 = c @ ''LIMIT 1'' @ d"
    unfolding sublist_def by blast
  then have "buildWaterFeatureByIdQuery ident = (byIdQuery1 @ ident @ c) @ ''LIMIT 1'' @ d"
    unfolding buildWaterFeatureByIdQuery_def by simp
  then show "sublist ''LIMIT 1'' (buildWaterFeatureByIdQuery ident)"
    unfolding sublist_def by blast
qed

text \<open>\<open>getWaterFeatureById\<close> put together from the scan and the query step.\<close>

lemma serves_id: "serves e w tys ident ty f \<Longrightarrow> id' f = ident"
  by (auto simp: serves_def firstWithId_def)

lemma first_serving:
  assumes "\<exists>ty \<in> set tys. \<exists>g. serves e w tys ident ty g"
  shows "\<exists>ty \<in> set tys. \<exists>f. serves e w tys ident ty f \<and>
           (\<forall>t \<in> set (takeWhile (\<lambda>t. t \<noteq> ty) tys). \<forall>g. \<not> serves e w tys ident t g)"
proof -
  let ?P = "\<lambda>t. \<forall>g. \<not> serves e w tys ident t g"
  have ne: "dropWhile ?P tys \<noteq> []"
    using assms by (auto simp: dropWhile_eq_Nil_conv)
  then obtain ty rest where d: "dropWhile ?P tys = ty # rest"
    by (cases "dropWhile ?P tys") auto
  have notP: "\<not> ?P ty"
    using hd_dropWhile [OF ne] d by simp
  have split: "tys = takeWhile ?P tys @ ty # rest"
    using takeWhile_dropWhile_id [of ?P tys] d by simp
  have pre: "\<forall>x \<in> set (takeWhile ?P tys). ?P x"
    by (auto dest: set_takeWhileD)
  then have "\<forall>x \<in> set (takeWhile ?P tys). x \<noteq> ty"
    using notP by blast
  then have "takeWhile (\<lambda>t. t \<noteq> ty) (takeWhile ?P tys @ ty # rest) = takeWhile ?P tys"
    by (simp add: takeWhile_append2)
  then have tw: "takeWhile (\<lambda>t. t \<noteq> ty) tys = takeWhile ?P tys"
    using split by simp
  have "ty \<in> set tys"
    using split by (metis in_set_conv_decomp)
  moreover obtain f where "serves e w tys ident ty f"
    using notP by blast
  moreover have "\<forall>t \<in> set (takeWhile (\<lambda>t. t \<noteq> ty) tys). \<forall>g. \<not> serves e w tys ident t g"
    unfolding tw using pre by blast
  ultimately show ?thesis by blast
qed

lemma getById_first:
  assumes "typedCaches w" "ty \<in> set waterFeatureTypes"
    and "serves e w waterFeatureTypes ident ty f"
    and "\<forall>t \<in> set (takeWhile (\<lambda>t. t \<noteq> ty) waterFeatureTypes).
           \<forall>g. \<not> serves e w waterFeatureTypes ident t g"
  shows "\<exists>w'. getWaterFeatureById e ident w = (Inr (Some f), w') \<and> id' f = ident \<and>
           requests w' = requests w"
proof -
  have wt: "\<forall>t \<in> set waterFeatureTypes. \<forall>en. cached w (''ALL_'' @ t) = Some en \<longrightarrow>
              (\<exists>fs. data en = FeatureList fs)"
    using assms(1) by (simp add: typedCaches_def)
  from scan_first [OF distinct_waterFeatureTypes wt assms(2,3,4)] obtain w'
    where s: "scanTypeCaches e ident waterFeatureTypes w = (Inr (Some f), w')" by blast
  have "getWaterFeatureById e ident w = (Inr (Some f), w')"
    using s by (simp add: getWaterFeatureById_def)
  with scan_requests [OF s] serves_id [OF assms(3)] show ?thesis by blast
qed

lemma getById_scan_miss:
  assumes "typedCaches w"
    and "\<forall>ty \<in> set waterFeatureTypes. \<forall>g. \<not> serves e w waterFeatureTypes ident ty g"
  shows "\<exists>w1. scanTypeCaches e ident waterFeatureTypes w = (Inr None, w1) \<and>
           ticks w1 = scanReadings w \<and> requests w1 = requests w \<and>
           defaultTTL (cm w1) = defaultTTL (cm w) \<and>
           cached w1 (hashString m q) = cached w (hashString m q) \<and>
           cached w1 (''FEATURE_'' @ ident) = cached w (''FEATURE_'' @ ident)"
proof -
  have wt: "\<forall>t \<in> set waterFeatureTypes. \<forall>en. cached w (''ALL_'' @ t) = Some en \<longrightarrow>
              (\<exists>fs. data en = FeatureList fs)"
    using assms(1) by (simp add: typedCaches_def)
  from scan_miss [OF distinct_waterFeatureTypes wt assms(2)] obtain w1
    where s: "scanTypeCaches e ident waterFeatureTypes w = (Inr None, w1)"
      and t: "ticks w1 = ticks w + length (filter (present w) waterFeatureTypes)"
    by blast
  have h: "cached w1 (hashString m q) = cached w (hashString m q)"
    by (rule scan_cached_other [OF s]) (metis hashString_not_ALL)
  have f: "cached w1 (''FEATURE_'' @ ident) = cached w (''FEATURE_'' @ ident)"
    by (rule scan_cached_other [OF s]) simp
  from s t h f scan_requests [OF s] scan_defaultTTL [OF s] show ?thesis
    by (simp add: scanReadings_def)
qed

lemma liveData_cong:
  "cached w1 k = cached w k \<Longrightarrow> liveData e n w1 k = liveData e n w k"
  by (simp add: liveData_def)

lemma getById_cached_query:
  assumes ty: "typedCaches w"
    and no: "\<forall>ty \<in> set waterFeatureTypes. \<forall>g. \<not> serves e w waterFeatureTypes ident ty g"
    and live: "liveData e (scanReadings w) w (hashString (cm w) (buildWaterFeatureByIdQuery ident)) = Some res"
  shows "transformResults res = Inr (f # fs) \<Longrightarrow>
           (\<exists>w'. getWaterFeatureById e ident w = (Inr (Some f), w') \<and> requests w' = requests w \<and>
              cached w' (''FEATURE_'' @ ident)
                = Some \<lparr>data = Feature f,
                        expiryTime = addNumber (clock e (Suc (scanReadings w))) (defaultTTL (cm w))\<rparr>)"
    and "transformResults res = Inr [] \<Longrightarrow>
           (\<exists>w'. getWaterFeatureById e ident w = (Inr None, w') \<and> requests w' = requests w \<and>
              cached w' (''FEATURE_'' @ ident) = cached w (''FEATURE_'' @ ident))"
proof -
  let ?q = "buildWaterFeatureByIdQuery ident"
  from getById_scan_miss [OF ty no, of "cm w" ?q] obtain w1
    where s: "scanTypeCaches e ident waterFeatureTypes w = (Inr None, w1)"
      and w1: "ticks w1 = scanReadings w" "requests w1 = requests w"
        "defaultTTL (cm w1) = defaultTTL (cm w)"
        "cached w1 (hashString (cm w) ?q) = cached w (hashString (cm w) ?q)"
        "cached w1 (''FEATURE_'' @ ident) = cached w (''FEATURE_'' @ ident)"
    by blast
  have hh: "hashString (cm w1) ?q = hashString (cm w) ?q"
    by (rule hashString_indep)
  have "liveData e (ticks w1) w1 (hashString (cm w1) ?q) = Some res"
    using live liveData_cong [OF w1(4)] by (simp add: w1(1) hh)
  from query_cached [OF this]
  have q: "query e ?q w1 = (Inr res, w1\<lparr>ticks := Suc (ticks w1)\<rparr>)" .
  show "transformResults res = Inr (f # fs) \<Longrightarrow>
           (\<exists>w'. getWaterFeatureById e ident w = (Inr (Some f), w') \<and> requests w' = requests w \<and>
              cached w' (''FEATURE_'' @ ident)
                = Some \<lparr>data = Feature f,
                        expiryTime = addNumber (clock e (Suc (scanReadings w))) (defaultTTL (cm w))\<rparr>)"
    using s q w1
    by (simp add: getWaterFeatureById_def cacheSet_def set_cm_def Let_def update_conv')
  show "transformResults res = Inr [] \<Longrightarrow>
           (\<exists>w'. getWaterFeatureById e ident w = (Inr None, w') \<and> requests w' = requests w \<and>
              cached w' (''FEATURE_'' @ ident) = cached w (''FEATURE_'' @ ident))"
    using s q w1 by (simp add: getWaterFeatureById_def)
qed

lemma getById_transport:
  assumes ty: "typedCaches w"
    and no: "\<forall>ty \<in> set waterFeatureTypes. \<forall>g. \<not> serves e w waterFeatureTypes ident ty g"
    and dead: "liveData e (scanReadings w) w (hashString (cm w) (buildWaterFeatureByIdQuery ident)) = None"
    and ok: "fetch e (length (requests w)) (buildWaterFeatureByIdQuery ident) = Ok raw"
  shows "transformResults (Results raw) = Inr (f # fs) \<Longrightarrow>
           (\<exists>w'. getWaterFeatureById e ident w = (Inr (Some f), w') \<and>
              requests w' = requests w @ [buildWaterFeatureByIdQuery ident] \<and>
              cached w' (hashString (cm w) (buildWaterFeatureByIdQuery ident))
                = Some \<lparr>data = Results raw,
                        expiryTime = addNumber
                          (clock e (scanReadings w +
                             (if cached w (hashString (cm w) (buildWaterFeatureByIdQuery ident)) = None
                              then 0 else 1)))
                          (defaultTTL (cm w))\<rparr> \<and>
              cached w' (''FEATURE_'' @ ident)
                = Some \<lparr>data = Feature f,
                        expiryTime = addNumber
                          (clock e (Suc (scanReadings w +
                             (if cached w (hashString (cm w) (buildWaterFeatureByIdQuery ident)) = None
                              then 0 else 1))))
                          (defaultTTL (cm w))\<rparr>)"
    and "transformResults (Results raw) = Inr [] \<Longrightarrow>
           (\<exists>w'. getWaterFeatureById e ident w = (Inr None, w') \<and>
              requests w' = requests w @ [buildWaterFeatureByIdQuery ident] \<and>
              cached w' (''FEATURE_'' @ ident) = cached w (''FEATURE_'' @ ident))"
proof -
  let ?q = "buildWaterFeatureByIdQuery ident"
  let ?h = "hashString (cm w) ?q"
  from getById_scan_miss [OF ty no, of "cm w" ?q] obtain w1
    where s: "scanTypeCaches e ident waterFeatureTypes w = (Inr None, w1)"
      and w1: "ticks w1 = scanReadings w" "requests w1 = requests w"
        "defaultTTL (cm w1) = defaultTTL (cm w)"
        "cached w1 ?h = cached w ?h"
        "cached w1 (''FEATURE_'' @ ident) = cached w (''FEATURE_'' @ ident)"
    by blast
  have hh: "hashString (cm w1) ?q = ?h"
    by (rule hashString_indep)
  have d1: "liveData e (ticks w1) w1 (hashString (cm w1) ?q) = None"
    using dead liveData_cong [OF w1(4)] by (simp add: w1(1) hh)
  have ok1: "fetch e (length (requests w1)) ?q = Ok raw"
    using ok w1(2) by simp
  from query_fetch_Ok [OF d1 ok1] obtain w2
    where q: "query e ?q w1 = (Inr (Results raw), w2)"
      and w2: "requests w2 = requests w @ [?q]"
        "ticks w2 = Suc (scanReadings w + (if cached w ?h = None then 0 else 1))"
        "cached w2 ?h = Some \<lparr>data = Results raw,
            expiryTime = addNumber (clock e (scanReadings w + (if cached w ?h = None then 0 else 1)))
              (defaultTTL (cm w))\<rparr>"
        "\<forall>k. k \<noteq> ?h \<longrightarrow> cached w2 k = cached w1 k"
        "defaultTTL (cm w2) = defaultTTL (cm w)"
    unfolding hh w1 by blast
  have ne: "''FEATURE_'' @ ident \<noteq> ?h"
    using hashString_not_FEATURE by metis
  have f2: "cached w2 (''FEATURE_'' @ ident) = cached w (''FEATURE_'' @ ident)"
    using w2(4) ne w1(5) by simp
  show "transformResults (Results raw) = Inr (f # fs) \<Longrightarrow>
           (\<exists>w'. getWaterFeatureById e ident w = (Inr (Some f), w') \<and>
              requests w' = requests w @ [?q] \<and>
              cached w' ?h
                = Some \<lparr>data = Results raw,
                        expiryTime = addNumber
                          (clock e (scanReadings w + (if cached w ?h = None then 0 else 1)))
                          (defaultTTL (cm w))\<rparr> \<and>
              cached w' (''FEATURE_'' @ ident)
                = Some \<lparr>data = Feature f,
                        expiryTime = addNumber
                          (clock e (Suc (scanReadings w + (if cached w ?h = None then 0 else 1))))
                          (defaultTTL (cm w))\<rparr>)"
    using s q w2(1,2,3,5) ne
    by (simp add: getWaterFeatureById_def cacheSet_def set_cm_def Let_def update_conv')
  show "transformResults (Results raw) = Inr [] \<Longrightarrow>
           (\<exists>w'. getWaterFeatureById e ident w = (Inr None, w') \<and>
              requests w' = requests w @ [?q] \<and>
              cached w' (''FEATURE_'' @ ident) = cached w (''FEATURE_'' @ ident))"
    using s q w2(1) f2 by (simp add: getWaterFeatureById_def)
qed

text \<open>
  Claim C7. \<open>getWaterFeatureById\<close> looks in the type lists first, in the order LAKE, DAM,
  RESERVOIR, RIVER, the entries under \<open>ALL_type\<close> being feature lists. A type serves a
  record when its list is live at the clock reading of its turn and holds the identifier;
  an absent list, an expired list and a list without the identifier serve nothing.

  \<^item> When some type serves, the first such type's first record with the identifier is
    returned and the transport is not asked.
  \<^item> When no type serves, the query is built for the identifier: it binds \<open>wd:ident\<close> to
    \<open>?item\<close> and ends in \<open>LIMIT 1\<close>. A live entry under the query's fingerprint answers
    instead of the transport; otherwise the transport is asked exactly this query, once,
    and its answer is stored under the fingerprint with the default lifetime.
  \<^item> The first row of the answer, normalized, is returned and stored under
    \<open>FEATURE_ident\<close> with the default lifetime, counted from the clock reading of that
    store; with no row the result is \<open>null\<close> and nothing is stored under \<open>FEATURE_ident\<close>.
\<close>

theorem getWaterFeatureById_cache_first:
  "(typedCaches w \<and> ty \<in> set waterFeatureTypes \<and> serves e w waterFeatureTypes ident ty f \<and>
    (\<forall>t \<in> set (takeWhile (\<lambda>t. t \<noteq> ty) waterFeatureTypes).
        \<forall>g. \<not> serves e w waterFeatureTypes ident t g)
    \<longrightarrow> (\<exists>w'. getWaterFeatureById e ident w = (Inr (Some f), w') \<and> id' f = ident \<and>
           requests w' = requests w)) \<and>
   (typedCaches w \<and> (\<exists>ty \<in> set waterFeatureTypes. \<exists>g. serves e w waterFeatureTypes ident ty g)
    \<longrightarrow> (\<exists>f' w'. getWaterFeatureById e ident w = (Inr (Some f'), w') \<and> id' f' = ident \<and>
           requests w' = requests w \<and>
           (\<exists>ty \<in> set waterFeatureTypes. serves e w waterFeatureTypes ident ty f'))) \<and>
   (typedCaches w \<and> (\<forall>ty \<in> set waterFeatureTypes. \<forall>g. \<not> serves e w waterFeatureTypes ident ty g) \<and>
    liveData e (scanReadings w) w (hashString (cm w) (buildWaterFeatureByIdQuery ident)) = Some res
    \<longrightarrow> (transformResults res = Inr (f # fs) \<longrightarrow>
           (\<exists>w'. getWaterFeatureById e ident w = (Inr (Some f), w') \<and> requests w' = requests w \<and>
              cached w' (''FEATURE_'' @ ident)
                = Some \<lparr>data = Feature f,
                        expiryTime = addNumber (clock e (Suc (scanReadings w))) (defaultTTL (cm w))\<rparr>)) \<and>
        (transformResults res = Inr [] \<longrightarrow>
           (\<exists>w'. getWaterFeatureById e ident w = (Inr None, w') \<and> requests w' = requests w \<and>
              cached w' (''FEATURE_'' @ ident) = cached w (''FEATURE_'' @ ident)))) \<and>
   (typedCaches w \<and> (\<forall>ty \<in> set waterFeatureTypes. \<forall>g. \<not> serves e w waterFeatureTypes ident ty g) \<and>
    liveData e (scanReadings w) w (hashString (cm w) (buildWaterFeatureByIdQuery ident)) = None \<and>
    fetch e (length (requests w)) (buildWaterFeatureByIdQuery ident) = Ok raw
    \<longrightarrow> (transformResults (Results raw) = Inr (f # fs) \<longrightarrow>
           (\<exists>w'. getWaterFeatureById e ident w = (Inr (Some f), w') \<and>
              requests w' = requests w @ [buildWaterFeatureByIdQuery ident] \<and>
              cached w' (hashString (cm w) (buildWaterFeatureByIdQuery ident))
                = Some \<lparr>data = Results raw,
                        expiryTime = addNumber
                          (clock e (scanReadings w +
                             (if cached w (hashString (cm w) (buildWaterFeatureByIdQuery ident)) = None
                              then 0 else 1)))
                          (defaultTTL (cm w))\<rparr> \<and>
              cached w' (''FEATURE_'' @ ident)
                = Some \<lparr>data = Feature f,
                        expiryTime = addNumber
                          (clock e (Suc (scanReadings w +
                             (if cached w (hashString (cm w) (buildWaterFeatureByIdQuery ident)) = None
                              then 0 else 1))))
                          (defaultTTL (cm w))\<rparr>)) \<and>
        (transformResults (Results raw) = Inr [] \<longrightarrow>
           (\<exists>w'. getWaterFeatureById e ident w = (Inr None, w') \<and>
              requests w' = requests w @ [buildWaterFeatureByIdQuery ident] \<and>
              cached w' (''FEATURE_'' @ ident) = cached w (''FEATURE_'' @ ident)))) \<and>
   sublist (''BIND(wd:'' @ ident @ '' AS ?item)'') (buildWaterFeatureByIdQuery ident) \<and>
   sublist ''LIMIT 1'' (buildWaterFeatureByIdQuery ident)"
proof -
  have 1: "typedCaches w \<and> ty \<in> set waterFeatureTypes \<and> serves e w waterFeatureTypes ident ty f \<and>
    (\<forall>t \<in> set (takeWhile (\<lambda>t. t \<noteq> ty) waterFeatureTypes).
        \<forall>g. \<not> serves e w waterFeatureTypes ident t g)
    \<longrightarrow> (\<exists>w'. getWaterFeatureById e ident w = (Inr (Some f), w') \<and> id' f = ident \<and>
           requests w' = requests w)"
    using getById_first [of w ty e ident f] by blast
  have 2: "typedCaches w \<and> (\<exists>ty \<in> set waterFeatureTypes. \<exists>g. serves e w waterFeatureTypes ident ty g)
    \<longrightarrow> (\<exists>f' w'. getWaterFeatureById e ident w = (Inr (Some f'), w') \<and> id' f' = ident \<and>
           requests w' = requests w \<and>
           (\<exists>ty \<in> set waterFeatureTypes. serves e w waterFeatureTypes ident ty f'))"
  proof
    assume a: "typedCaches w \<and> (\<exists>ty \<in> set waterFeatureTypes. \<exists>g. serves e w waterFeatureTypes ident ty g)"
    then obtain ty0 f0 where t0: "ty0 \<in> set waterFeatureTypes"
        "serves e w waterFeatureTypes ident ty0 f0"
        "\<forall>t \<in> set (takeWhile (\<lambda>t. t \<noteq> ty0) waterFeatureTypes).
           \<forall>g. \<not> serves e w waterFeatureTypes ident t g"
      using first_serving [of waterFeatureTypes e w ident] by blast
    from getById_first [OF _ t0] a obtain w'
      where "getWaterFeatureById e ident w = (Inr (Some f0), w')" "id' f0 = ident"
        "requests w' = requests w"
      by blast
    with t0(1,2) show "\<exists>f' w'. getWaterFeatureById e ident w = (Inr (Some f'), w') \<and> id' f' = ident \<and>
           requests w' = requests w \<and>
           (\<exists>ty \<in> set waterFeatureTypes. serves e w waterFeatureTypes ident ty f')"
      by blast
  qed
  have 3: "typedCaches w \<and> (\<forall>ty \<in> set waterFeatureTypes. \<forall>g. \<not> serves e w waterFeatureTypes ident ty g) \<and>
    liveData e (scanReadings w) w (hashString (cm w) (buildWaterFeatureByIdQuery ident)) = Some res
    \<longrightarrow> (transformResults res = Inr (f # fs) \<longrightarrow>
           (\<exists>w'. getWaterFeatureById e ident w = (Inr (Some f), w') \<and> requests w' = requests w \<and>
              cached w' (''FEATURE_'' @ ident)
                = Some \<lparr>data = Feature f,
                        expiryTime = addNumber (clock e (Suc (scanReadings w))) (defaultTTL (cm w))\<rparr>)) \<and>
        (transformResults res = Inr [] \<longrightarrow>
           (\<exists>w'. getWaterFeatureById e ident w = (Inr None, w') \<and> requests w' = requests w \<and>
              cached w' (''FEATURE_'' @ ident) = cached w (''FEATURE_'' @ ident)))"
    using getById_cached_query [of w e ident res] by blast
  have 4: "typedCaches w \<and> (\<forall>ty \<in> set waterFeatureTypes. \<forall>g. \<not> serves e w waterFeatureTypes ident ty g) \<and>
    liveData e (scanReadings w) w (hashString (cm w) (buildWaterFeatureByIdQuery ident)) = None \<and>
    fetch e (length (requests w)) (buildWaterFeatureByIdQuery ident) = Ok raw
    \<longrightarrow> (transformResults (Results raw) = Inr (f # fs) \<longrightarrow>
           (\<exists>w'. getWaterFeatureById e ident w = (Inr (Some f), w') \<and>
              requests w' = requests w @ [buildWaterFeatureByIdQuery ident] \<and>
              cached w' (hashString (cm w) (buildWaterFeatureByIdQuery ident))
                = Some \<lparr>data = Results raw,
                        expiryTime = addNumber
                          (clock e (scanReadings w +
                             (if cached w (hashString (cm w) (buildWaterFeatureByIdQuery ident)) = None
                              then 0 else 1)))
                          (defaultTTL (cm w))\<rparr> \<and>
              cached w' (''FEATURE_'' @ ident)
                = Some \<lparr>data = Feature f,
                        expiryTime = addNumber
                          (clock e (Suc (scanReadings w +
                             (if cached w (hashString (cm w) (buildWaterFeatureByIdQuery ident)) = None
                              then 0 else 1))))
                          (defaultTTL (cm w))\<rparr>)) \<and>
        (transformResults (Results raw) = Inr [] \<longrightarrow>
           (\<exists>w'. getWaterFeatureById e ident w = (Inr None, w') \<and>
              requests w' = requests w @ [buildWaterFeatureByIdQuery ident] \<and>
              cached w' (''FEATURE_'' @ ident) = cached w (''FEATURE_'' @ ident)))"
    using getById_transport [of w e ident raw] by blast
  from 1 2 3 4 byId_text [of ident] show ?thesis
    by (intro conjI)
qed

theorem getWaterFeatureById_cache_first_witness:
  \<open>(\<exists>w'. getWaterFeatureById \<lparr>clock = \<lambda>n. 1000 + int n, fetch = \<lambda>n q. NotOk ''down''\<rparr> ''Q5'' \<lparr>cm = \<lparr>cache = [(''ALL_LAKE'', \<lparr>data = FeatureList [\<lparr>id' = ''Q5'', name = ''Old name'', type' = ''LAKE'', location = None, locatedIn = None, width = None, length' = None, surfaceArea = None, capacity = None, inceptionDate = None, wikidataUrl = ''https://www.wikidata.org/wiki/Q5'', description = None\<rparr>], expiryTime = Some 500\<rparr>), (''ALL_DAM'', \<lparr>data = FeatureList [\<lparr>id' = ''Q9'', name = ''Ogosta'', type' = ''DAM'', location = None, locatedIn = None, width = None, length' = None, surfaceArea = None, capacity = None, inceptionDate = None, wikidataUrl = ''https://www.wikidata.org/wiki/Q9'', description = None\<rparr>, \<lparr>id' = ''Q5'', name = ''Iskar'', type' = ''DAM'', location = None, locatedIn = None, width = None, length' = None, surfaceArea = None, capacity = None, inceptionDate = None, wikidataUrl = ''https://www.wikidata.org/wiki/Q5'', description = None\<rparr>, \<lparr>id' = ''Q5'', name = ''Iskar again'', type' = ''DAM'', location = None, locatedIn = None, width = None, length' = None, surfaceArea = None, capacity = None, inceptionDate = None, wikidataUrl = ''https://www.wikidata.org/wiki/Q5'', description = None\<rparr>], expiryTime = Some 2000\<rparr>)], queryCache = [], defaultTTL = Some 60000\<rparr>, ticks = 0, requests = [], errorLog = []\<rparr> = (Inr (Some \<lparr>id' = ''Q5'', name = ''Iskar'', type' = ''DAM'', location = None, locatedIn = None, width = None, length' = None, surfaceArea = None, capacity = None, inceptionDate = None, wikidataUrl = ''https://www.wikidata.org/wiki/Q5'', description = None\<rparr>), w') \<and> requests w' = []) \<and>
   (\<exists>f' w'. getWaterFeatureById \<lparr>clock = \<lambda>n. 1000 + int n, fetch = \<lambda>n q. NotOk ''down''\<rparr> ''Q5'' \<lparr>cm = \<lparr>cache = [(''ALL_LAKE'', \<lparr>data = FeatureList [\<lparr>id' = ''Q5'', name = ''Old name'', type' = ''LAKE'', location = None, locatedIn = None, width = None, length' = None, surfaceArea = None, capacity = None, inceptionDate = None, wikidataUrl = ''https://www.wikidata.org/wiki/Q5'', description = None\<rparr>], expiryTime = Some 500\<rparr>), (''ALL_DAM'', \<lparr>data = FeatureList [\<lparr>id' = ''Q9'', name = ''Ogosta'', type' = ''DAM'', location = None, locatedIn = None, width = None, length' = None, surfaceArea = None, capacity = None, inceptionDate = None, wikidataUrl = ''https://www.wikidata.org/wiki/Q9'', description = None\<rparr>, \<lparr>id' = ''Q5'', name = ''Iskar'', type' = ''DAM'', location = None, locatedIn = None, width = None, length' = None, surfaceArea = None, capacity = None, inceptionDate = None, wikidataUrl = ''https://www.wikidata.org/wiki/Q5'', description = None\<rparr>, \<lparr>id' = ''Q5'', name = ''Iskar again'', type' = ''DAM'', location = None, locatedIn = None, width = None, length' = None, surfaceArea = None, capacity = None, inceptionDate = None, wikidataUrl = ''https://www.wikidata.org/wiki/Q5'', description = None\<rparr>], expiryTime = Some 2000\<rparr>)], queryCache = [], defaultTTL = Some 60000\<rparr>, ticks = 0, requests = [], errorLog = []\<rparr> = (Inr (Some f'), w') \<and> id' f' = ''Q5'' \<and> requests w' = []) \<and>
   (\<exists>w'. getWaterFeatureById \<lparr>clock = \<lambda>n. 1000 + int n, fetch = \<lambda>n q. if q = buildWaterFeatureByIdQuery ''Q5'' then Ok \<lparr>results = Some \<lparr>bindings = Some [[''item'' \<mapsto> ''http://www.wikidata.org/entity/Q5'', ''itemLabel'' \<mapsto> ''Iskar'']]\<rparr>\<rparr> else NotOk ''bad query''\<rparr> ''Q5'' \<lparr>cm = \<lparr>cache = [(''ALL_LAKE'', \<lparr>data = FeatureList [\<lparr>id' = ''Q5'', name = ''Old name'', type' = ''LAKE'', location = None, locatedIn = None, width = None, length' = None, surfaceArea = None, capacity = None, inceptionDate = None, wikidataUrl = ''https://www.wikidata.org/wiki/Q5'', description = None\<rparr>], expiryTime = Some 500\<rparr>)], queryCache = [], defaultTTL = Some 60000\<rparr>, ticks = 0, requests = [], errorLog = []\<rparr> = (Inr (Some \<lparr>id' = ''Q5'', name = ''Iskar'', type' = ''LAKE'', location = None, locatedIn = None, width = None, length' = None, surfaceArea = None, capacity = None, inceptionDate = None, wikidataUrl = ''https://www.wikidata.org/wiki/Q5'', description = None\<rparr>), w') \<and>
      requests w' = [buildWaterFeatureByIdQuery ''Q5''] \<and>
      cached w' (hashString (cm \<lparr>cm = \<lparr>cache = [(''ALL_LAKE'', \<lparr>data = FeatureList [\<lparr>id' = ''Q5'', name = ''Old name'', type' = ''LAKE'', location = None, locatedIn = None, width = None, length' = None, surfaceArea = None, capacity = None, inceptionDate = None, wikidataUrl = ''https://www.wikidata.org/wiki/Q5'', description = None\<rparr>], expiryTime = Some 500\<rparr>)], queryCache = [], defaultTTL = Some 60000\<rparr>, ticks = 0, requests = [], errorLog = []\<rparr>) (buildWaterFeatureByIdQuery ''Q5'')) = Some \<lparr>data = Results \<lparr>results = Some \<lparr>bindings = Some [[''item'' \<mapsto> ''http://www.wikidata.org/entity/Q5'', ''itemLabel'' \<mapsto> ''Iskar'']]\<rparr>\<rparr>, expiryTime = Some 61001\<rparr> \<and>
      cached w' ''FEATURE_Q5'' = Some \<lparr>data = Feature \<lparr>id' = ''Q5'', name = ''Iskar'', type' = ''LAKE'', location = None, locatedIn = None, width = None, length' = None, surfaceArea = None, capacity = None, inceptionDate = None, wikidataUrl = ''https://www.wikidata.org/wiki/Q5'', description = None\<rparr>, expiryTime = Some 61002\<rparr>) \<and>
   (\<exists>w'. getWaterFeatureById \<lparr>clock = \<lambda>n. 1000 + int n, fetch = \<lambda>n q. Ok \<lparr>results = Some \<lparr>bindings = Some []\<rparr>\<rparr>\<rparr> ''Q7'' \<lparr>cm = newCacheManager (Some 60000), ticks = 0, requests = [], errorLog = []\<rparr> = (Inr None, w') \<and>
      requests w' = [buildWaterFeatureByIdQuery ''Q7''] \<and> cached w' ''FEATURE_Q7'' = None) \<and>
   (\<exists>w'. getWaterFeatureById \<lparr>clock = \<lambda>n. 1000 + int n, fetch = \<lambda>n q. if q = buildWaterFeatureByIdQuery ''Q5'' then Ok \<lparr>results = Some \<lparr>bindings = Some [[''item'' \<mapsto> ''http://www.wikidata.org/entity/Q5'', ''itemLabel'' \<mapsto> ''Iskar'']]\<rparr>\<rparr> else NotOk ''bad query''\<rparr> ''Q5'' \<lparr>cm = newCacheManager None, ticks = 0, requests = [], errorLog = []\<rparr> = (Inr (Some \<lparr>id' = ''Q5'', name = ''Iskar'', type' = ''LAKE'', location = None, locatedIn = None, width = None, length' = None, surfaceArea = None, capacity = None, inceptionDate = None, wikidataUrl = ''https://www.wikidata.org/wiki/Q5'', description = None\<rparr>), w') \<and>
      requests w' = [buildWaterFeatureByIdQuery ''Q5''] \<and>
      cached w' ''FEATURE_Q5'' = Some \<lparr>data = Feature \<lparr>id' = ''Q5'', name = ''Iskar'', type' = ''LAKE'', location = None, locatedIn = None, width = None, length' = None, surfaceArea = None, capacity = None, inceptionDate = None, wikidataUrl = ''https://www.wikidata.org/wiki/Q5'', description = None\<rparr>, expiryTime = None\<rparr>) \<and>
   (\<exists>w'. getWaterFeatureById \<lparr>clock = \<lambda>n. 1000 + int n, fetch = \<lambda>n q. NotOk ''down''\<rparr> ''Q5'' \<lparr>cm = \<lparr>cache = [(hashString (newCacheManager (Some 60000) :: jsdata cacheManager) (buildWaterFeatureByIdQuery ''Q5''), \<lparr>data = Results \<lparr>results = Some \<lparr>bindings = Some [[''item'' \<mapsto> ''http://www.wikidata.org/entity/Q5'', ''itemLabel'' \<mapsto> ''Iskar'']]\<rparr>\<rparr>, expiryTime = Some 5000\<rparr>)], queryCache = [], defaultTTL = Some 60000\<rparr>, ticks = 0, requests = [], errorLog = []\<rparr> = (Inr (Some \<lparr>id' = ''Q5'', name = ''Iskar'', type' = ''LAKE'', location = None, locatedIn = None, width = None, length' = None, surfaceArea = None, capacity = None, inceptionDate = None, wikidataUrl = ''https://www.wikidata.org/wiki/Q5'', description = None\<rparr>), w') \<and> requests w' = [] \<and>
      cached w' ''FEATURE_Q5'' = Some \<lparr>data = Feature \<lparr>id' = ''Q5'', name = ''Iskar'', type' = ''LAKE'', location = None, locatedIn = None, width = None, length' = None, surfaceArea = None, capacity = None, inceptionDate = None, wikidataUrl = ''https://www.wikidata.org/wiki/Q5'', description = None\<rparr>, expiryTime = Some 61001\<rparr>) \<and>
   sublist ''BIND(wd:Q7 AS ?item)'' (buildWaterFeatureByIdQuery ''Q7'') \<and>
   sublist ''LIMIT 1'' (buildWaterFeatureByIdQuery ''Q7'') \<and>
   buildWaterFeatureByIdQuery ''Q7'' =
''\<newline>'' @
     ''        SELECT ?item ?itemLabel ?typeId ?typeLabel ?coord ?locatedInLabel \<newline>'' @
     ''                ?width ?length ?surfaceArea ?capacity ?inception ?description\<newline>'' @
     ''        WHERE {\<newline>'' @
     ''            BIND(wd:Q7 AS ?item)\<newline>'' @
     ''            \<newline>'' @
     ''            # Get the specific type\<newline>'' @
     ''            ?item wdt:P31 ?typeId.\<newline>'' @
     ''            ?typeId rdfs:label ?typeLabel.\<newline>'' @
     ''            FILTER(LANG(?typeLabel) = "en")\<newline>'' @
     ''            \<newline>'' @
     ''            # Name\<newline>'' @
     ''            ?item rdfs:label ?itemLabel.\<newline>'' @
     ''            FILTER(LANG(?itemLabel) = "en")\<newline>'' @
     ''            \<newline>'' @
     ''            # Coordinates\<newline>'' @
     ''            OPTIONAL { ?item wdt:P625 ?coord. }\<newline>'' @
     ''            \<newline>'' @
     ''            # Location\<newline>'' @
     ''            OPTIONAL { \<newline>'' @
     ''            ?item wdt:P131 ?locatedIn. \<newline>'' @
     ''            ?locatedIn rdfs:label ?locatedInLabel.\<newline>'' @
     ''            FILTER(LANG(?locatedInLabel) = "en")\<newline>'' @
     ''            }\<newline>'' @
     ''            \<newline>'' @
     ''            # width\<newline>'' @
     ''            OPTIONAL { ?item wdt:P2048 ?width. }\<newline>'' @
     ''            \<newline>'' @
     ''            # Length\<newline>'' @
     ''            OPTIONAL { ?item wdt:P2043 ?length. }\<newline>'' @
     ''            \<newline>'' @
     ''            # Surface area\<newline>'' @
     ''            OPTIONAL { ?item wdt:P2046 ?surfaceArea. }\<newline>'' @
     ''            \<newline>'' @
     ''            # Capacity\<newline>'' @
     ''            OPTIONAL { ?item wdt:P2234 ?capacity. }\<newline>'' @
     ''            \<newline>'' @
     ''            # Inception date\<newline>'' @
     ''            OPTIONAL { ?item wdt:P571 ?inception. }\<newline>'' @
     ''            \<newline>'' @
     ''            # Description\<newline>'' @
     ''            OPTIONAL {\<newline>'' @
     ''            ?item schema:description ?description.\<newline>'' @
     ''            FILTER(LANG(?description) = "en")\<newline>'' @
     ''            }\<newline>'' @
     ''        }\<newline>'' @
     ''        LIMIT 1\<newline>'' @
     ''        ''\<close>
proof -
  let ?fOld = "\<lparr>id' = ''Q5'', name = ''Old name'', type' = ''LAKE'', location = None, locatedIn = None, width = None, length' = None, surfaceArea = None, capacity = None, inceptionDate = None, wikidataUrl = ''https://www.wikidata.org/wiki/Q5'', description = None\<rparr>"
  let ?f9 = "\<lparr>id' = ''Q9'', name = ''Ogosta'', type' = ''DAM'', location = None, locatedIn = None, width = None, length' = None, surfaceArea = None, capacity = None, inceptionDate = None, wikidataUrl = ''https://www.wikidata.org/wiki/Q9'', description = None\<rparr>"
  let ?f5 = "\<lparr>id' = ''Q5'', name = ''Iskar'', type' = ''DAM'', location = None, locatedIn = None, width = None, length' = None, surfaceArea = None, capacity = None, inceptionDate = None, wikidataUrl = ''https://www.wikidata.org/wiki/Q5'', description = None\<rparr>"
  let ?f5b = "\<lparr>id' = ''Q5'', name = ''Iskar again'', type' = ''DAM'', location = None, locatedIn = None, width = None, length' = None, surfaceArea = None, capacity = None, inceptionDate = None, wikidataUrl = ''https://www.wikidata.org/wiki/Q5'', description = None\<rparr>"
  let ?fNew = "\<lparr>id' = ''Q5'', name = ''Iskar'', type' = ''LAKE'', location = None, locatedIn = None, width = None, length' = None, surfaceArea = None, capacity = None, inceptionDate = None, wikidataUrl = ''https://www.wikidata.org/wiki/Q5'', description = None\<rparr>"
  let ?q5 = "buildWaterFeatureByIdQuery ''Q5''"
  let ?q7 = "buildWaterFeatureByIdQuery ''Q7''"
  let ?raw5 = "\<lparr>results = Some \<lparr>bindings = Some [[''item'' \<mapsto> ''http://www.wikidata.org/entity/Q5'', ''itemLabel'' \<mapsto> ''Iskar'']]\<rparr>\<rparr>"
  let ?raw0 = "\<lparr>results = Some \<lparr>bindings = Some []\<rparr>\<rparr>"
  let ?eDown = "\<lparr>clock = \<lambda>n. 1000 + int n, fetch = \<lambda>n q. NotOk ''down''\<rparr>"
  let ?eUp = "\<lparr>clock = \<lambda>n. 1000 + int n, fetch = \<lambda>n q. if q = ?q5 then Ok ?raw5 else NotOk ''bad query''\<rparr>"
  let ?eNone = "\<lparr>clock = \<lambda>n. 1000 + int n, fetch = \<lambda>n q. Ok ?raw0\<rparr>"
  let ?enOld = "\<lparr>data = FeatureList [?fOld], expiryTime = Some 500\<rparr>"
  let ?enDam = "\<lparr>data = FeatureList [?f9, ?f5, ?f5b], expiryTime = Some 2000\<rparr>"
  let ?wHit = "\<lparr>cm = \<lparr>cache = [(''ALL_LAKE'', ?enOld), (''ALL_DAM'', ?enDam)], queryCache = [], defaultTTL = Some 60000\<rparr>, ticks = 0, requests = [], errorLog = []\<rparr>"
  let ?wStale = "\<lparr>cm = \<lparr>cache = [(''ALL_LAKE'', ?enOld)], queryCache = [], defaultTTL = Some 60000\<rparr>, ticks = 0, requests = [], errorLog = []\<rparr>"
  let ?w0 = "\<lparr>cm = newCacheManager (Some 60000), ticks = 0, requests = [], errorLog = []\<rparr>"
  let ?wNaN = "\<lparr>cm = newCacheManager None, ticks = 0, requests = [], errorLog = []\<rparr>"
  let ?K = "hashString (newCacheManager (Some 60000) :: jsdata cacheManager) ?q5"
  let ?enK = "\<lparr>data = Results ?raw5, expiryTime = Some 5000\<rparr>"
  let ?wF = "\<lparr>cm = \<lparr>cache = [(?K, ?enK)], queryCache = [], defaultTTL = Some 60000\<rparr>, ticks = 0, requests = [], errorLog = []\<rparr>"
  note defs = typedCaches_def waterFeatureTypes_def serves_def liveData_def readingOf_def
    present_def scanReadings_def find_firstWithId [symmetric]
  have hk: "hashString m q \<noteq> ''ALL_LAKE''" "hashString m q \<noteq> ''ALL_DAM''"
    "hashString m q \<noteq> ''ALL_RESERVOIR''" "hashString m q \<noteq> ''ALL_RIVER''"
    "hashString m q \<noteq> ''FEATURE_Q5''"
    "''ALL_LAKE'' \<noteq> hashString m q" "''ALL_DAM'' \<noteq> hashString m q"
    "''ALL_RESERVOIR'' \<noteq> hashString m q" "''ALL_RIVER'' \<noteq> hashString m q"
    "''FEATURE_Q5'' \<noteq> hashString m q" for m :: "jsdata cacheManager" and q
    using hashString_not_ALL [of m q "''LAKE''"] hashString_not_ALL [of m q "''DAM''"]
      hashString_not_ALL [of m q "''RESERVOIR''"] hashString_not_ALL [of m q "''RIVER''"]
      hashString_not_FEATURE [of m q "''Q5''"]
    by (simp_all add: not_sym)
  have ki: "hashString \<lparr>cache = [(?K, ?enK)], queryCache = [], defaultTTL = Some 60000\<rparr> ?q5 = ?K"
    by (rule hashString_indep)
  have t5: "transformResults (Results ?raw5) = Inr (?fNew # [])"
    by (simp add: transformResults_def transformBinding_def parseCoord_def pop_def inferType_def
        mkLocation_def truthy_def Let_def)
  have t0: "transformResults (Results ?raw0) = Inr []"
    by (simp add: transformResults_def)
  note cf = getWaterFeatureById_cache_first
  txt \<open>A live list is served although an earlier, expired list holds the identifier.\<close>
  have h1: "typedCaches ?wHit \<and> ''DAM'' \<in> set waterFeatureTypes \<and>
      serves ?eDown ?wHit waterFeatureTypes ''Q5'' ''DAM'' ?f5 \<and>
      (\<forall>t \<in> set (takeWhile (\<lambda>t. t \<noteq> ''DAM'') waterFeatureTypes).
         \<forall>g. \<not> serves ?eDown ?wHit waterFeatureTypes ''Q5'' t g)"
    by (simp add: defs)
  from mp [OF cf [where w = ?wHit and e = ?eDown and ident = "''Q5''" and ty = "''DAM''" and f = ?f5,
        THEN conjunct1] h1]
  have a: "\<exists>w'. getWaterFeatureById ?eDown ''Q5'' ?wHit = (Inr (Some ?f5), w') \<and> requests w' = []"
    by simp
  have h2: "typedCaches ?wHit \<and>
      (\<exists>ty \<in> set waterFeatureTypes. \<exists>g. serves ?eDown ?wHit waterFeatureTypes ''Q5'' ty g)"
    using h1 by blast
  from mp [OF cf [where w = ?wHit and e = ?eDown and ident = "''Q5''",
        THEN conjunct2, THEN conjunct1] h2]
  have b: "\<exists>f' w'. getWaterFeatureById ?eDown ''Q5'' ?wHit = (Inr (Some f'), w') \<and> id' f' = ''Q5'' \<and>
      requests w' = []"
    by auto
  txt \<open>An expired list serves nothing: the endpoint is asked.\<close>
  have h3: "typedCaches ?wStale \<and>
      (\<forall>ty \<in> set waterFeatureTypes. \<forall>g. \<not> serves ?eUp ?wStale waterFeatureTypes ''Q5'' ty g) \<and>
      liveData ?eUp (scanReadings ?wStale) ?wStale (hashString (cm ?wStale) ?q5) = None \<and>
      fetch ?eUp (length (requests ?wStale)) ?q5 = Ok ?raw5"
    by (simp add: defs hk)
  from mp [OF mp [OF cf [where w = ?wStale and e = ?eUp and ident = "''Q5''" and raw = ?raw5
          and f = ?fNew and fs = "[]",
        THEN conjunct2, THEN conjunct2, THEN conjunct2, THEN conjunct1] h3, THEN conjunct1] t5]
  have c: "\<exists>w'. getWaterFeatureById ?eUp ''Q5'' ?wStale = (Inr (Some ?fNew), w') \<and>
      requests w' = [?q5] \<and>
      cached w' (hashString (cm ?wStale) ?q5) = Some \<lparr>data = Results ?raw5, expiryTime = Some 61001\<rparr> \<and>
      cached w' ''FEATURE_Q5'' = Some \<lparr>data = Feature ?fNew, expiryTime = Some 61002\<rparr>"
    by (simp add: defs hk)
  txt \<open>Nothing cached and no row: no record, and nothing stored under the identifier.\<close>
  have h4: "typedCaches ?w0 \<and>
      (\<forall>ty \<in> set waterFeatureTypes. \<forall>g. \<not> serves ?eNone ?w0 waterFeatureTypes ''Q7'' ty g) \<and>
      liveData ?eNone (scanReadings ?w0) ?w0 (hashString (cm ?w0) ?q7) = None \<and>
      fetch ?eNone (length (requests ?w0)) ?q7 = Ok ?raw0"
    by (simp add: defs newCacheManager_def)
  from mp [OF mp [OF cf [where w = ?w0 and e = ?eNone and ident = "''Q7''" and raw = ?raw0,
        THEN conjunct2, THEN conjunct2, THEN conjunct2, THEN conjunct1] h4, THEN conjunct2] t0]
  have d: "\<exists>w'. getWaterFeatureById ?eNone ''Q7'' ?w0 = (Inr None, w') \<and>
      requests w' = [?q7] \<and> cached w' ''FEATURE_Q7'' = None"
    by (simp add: newCacheManager_def)
  txt \<open>Without a configured lifetime the stored record has no finite expiry.\<close>
  have h5: "typedCaches ?wNaN \<and>
      (\<forall>ty \<in> set waterFeatureTypes. \<forall>g. \<not> serves ?eUp ?wNaN waterFeatureTypes ''Q5'' ty g) \<and>
      liveData ?eUp (scanReadings ?wNaN) ?wNaN (hashString (cm ?wNaN) ?q5) = None \<and>
      fetch ?eUp (length (requests ?wNaN)) ?q5 = Ok ?raw5"
    by (simp add: defs newCacheManager_def)
  from mp [OF mp [OF cf [where w = ?wNaN and e = ?eUp and ident = "''Q5''" and raw = ?raw5
          and f = ?fNew and fs = "[]",
        THEN conjunct2, THEN conjunct2, THEN conjunct2, THEN conjunct1] h5, THEN conjunct1] t5]
  have e: "\<exists>w'. getWaterFeatureById ?eUp ''Q5'' ?wNaN = (Inr (Some ?fNew), w') \<and>
      requests w' = [?q5] \<and>
      cached w' ''FEATURE_Q5'' = Some \<lparr>data = Feature ?fNew, expiryTime = None\<rparr>"
    by (auto simp: newCacheManager_def)
  txt \<open>A live entry under the query's fingerprint answers without the endpoint.\<close>
  have h6: "typedCaches ?wF \<and>
      (\<forall>ty \<in> set waterFeatureTypes. \<forall>g. \<not> serves ?eDown ?wF waterFeatureTypes ''Q5'' ty g) \<and>
      liveData ?eDown (scanReadings ?wF) ?wF (hashString (cm ?wF) ?q5) = Some (Results ?raw5)"
    by (simp add: defs hk ki)
  from mp [OF mp [OF cf [where w = ?wF and e = ?eDown and ident = "''Q5''" and res = "Results ?raw5"
          and f = ?fNew and fs = "[]",
        THEN conjunct2, THEN conjunct2, THEN conjunct1] h6, THEN conjunct1] t5]
  have f: "\<exists>w'. getWaterFeatureById ?eDown ''Q5'' ?wF = (Inr (Some ?fNew), w') \<and> requests w' = [] \<and>
      cached w' ''FEATURE_Q5'' = Some \<lparr>data = Feature ?fNew, expiryTime = Some 61001\<rparr>"
    by (simp add: defs hk ki)
  from cf [where ident = "''Q7''"]
  have g: "sublist ''BIND(wd:Q7 AS ?item)'' ?q7" "sublist ''LIMIT 1'' ?q7"
    by simp_all
  have h: \<open>?q7 =
''\<newline>'' @
     ''        SELECT ?item ?itemLabel ?typeId ?typeLabel ?coord ?locatedInLabel \<newline>'' @
     ''                ?width ?length ?surfaceArea ?capacity ?inception ?description\<newline>'' @
     ''        WHERE {\<newline>'' @
     ''            BIND(wd:Q7 AS ?item)\<newline>'' @
     ''            \<newline>'' @
     ''            # Get the specific type\<newline>'' @
     ''            ?item wdt:P31 ?typeId.\<newline>'' @
     ''            ?typeId rdfs:label ?typeLabel.\<newline>'' @
     ''            FILTER(LANG(?typeLabel) = "en")\<newline>'' @
     ''            \<newline>'' @
     ''            # Name\<newline>'' @
     ''            ?item rdfs:label ?itemLabel.\<newline>'' @
     ''            FILTER(LANG(?itemLabel) = "en")\<newline>'' @
     ''            \<newline>'' @
     ''            # Coordinates\<newline>'' @
     ''            OPTIONAL { ?item wdt:P625 ?coord. }\<newline>'' @
     ''            \<newline>'' @
     ''            # Location\<newline>'' @
     ''            OPTIONAL { \<newline>'' @
     ''            ?item wdt:P131 ?locatedIn. \<newline>'' @
     ''            ?locatedIn rdfs:label ?locatedInLabel.\<newline>'' @
     ''            FILTER(LANG(?locatedInLabel) = "en")\<newline>'' @
     ''            }\<newline>'' @
     ''            \<newline>'' @
     ''            # width\<newline>'' @
     ''            OPTIONAL { ?item wdt:P2048 ?width. }\<newline>'' @
     ''            \<newline>'' @
     ''            # Length\<newline>'' @
     ''            OPTIONAL { ?item wdt:P2043 ?length. }\<newline>'' @
     ''            \<newline>'' @
     ''            # Surface area\<newline>'' @
     ''            OPTIONAL { ?item wdt:P2046 ?surfaceArea. }\<newline>'' @
     ''            \<newline>'' @
     ''            # Capacity\<newline>'' @
     ''            OPTIONAL { ?item wdt:P2234 ?capacity. }\<newline>'' @
     ''            \<newline>'' @
     ''            # Inception date\<newline>'' @
     ''            OPTIONAL { ?item wdt:P571 ?inception. }\<newline>'' @
     ''            \<newline>'' @
     ''            # Description\<newline>'' @
     ''            OPTIONAL {\<newline>'' @
     ''            ?item schema:description ?description.\<newline>'' @
     ''            FILTER(LANG(?description) = "en")\<newline>'' @
     ''            }\<newline>'' @
     ''        }\<newline>'' @
     ''        LIMIT 1\<newline>'' @
     ''        ''\<close>
    by (simp add: buildWaterFeatureByIdQuery_def byIdQuery1_def byIdQuery2_def)
  from a b c d e f g h show ?thesis
    by (intro conjI)
qed

text \<open>One turn of the \<open>preloadCache\<close> loop touches the entry of its own type, the
  entry of its query's fingerprint and, on failure, the log.\<close>

lemma ALL_key_eq: "(''ALL_'' @ t = ''ALL_'' @ ty) = (t = ty)"
  by simp













end
